theory Spec2Isabelle
  imports Complex_Main
begin

section \<open>Numbers, vectors and the object store\<close>

text \<open>
  The source computes with JavaScript numbers. In the placement pre-filter they are
  modelled as exact reals: every comparison and every arithmetic operation of the
  source is the corresponding operation on \<^typ>\<open>real\<close>.

  A \<open>THREE.Vector3\<close> is an object with three number fields. The operations below are
  the ones of three.js that \<open>Placement.ts\<close> calls (\<open>add\<close>, \<open>distanceTo\<close>, \<open>length\<close>,
  \<open>normalize\<close>, \<open>dot\<close>), written on values; which object is overwritten is decided by
  the caller in the store below.
\<close>

record Vector3 =
  x3 :: real
  y3 :: real
  z3 :: real

definition Vector3_add :: "Vector3 \<Rightarrow> Vector3 \<Rightarrow> Vector3" where
  "Vector3_add a v = \<lparr>x3 = x3 a + x3 v, y3 = y3 a + y3 v, z3 = z3 a + z3 v\<rparr>"

definition Vector3_distanceToSquared :: "Vector3 \<Rightarrow> Vector3 \<Rightarrow> real" where
  "Vector3_distanceToSquared a v =
     (let dx = x3 a - x3 v; dy = y3 a - y3 v; dz = z3 a - z3 v
      in dx * dx + dy * dy + dz * dz)"

definition Vector3_distanceTo :: "Vector3 \<Rightarrow> Vector3 \<Rightarrow> real" where
  "Vector3_distanceTo a v = sqrt (Vector3_distanceToSquared a v)"

definition Vector3_length :: "Vector3 \<Rightarrow> real" where
  "Vector3_length a = sqrt (x3 a * x3 a + y3 a * y3 a + z3 a * z3 a)"

definition Vector3_multiplyScalar :: "Vector3 \<Rightarrow> real \<Rightarrow> Vector3" where
  "Vector3_multiplyScalar a s = \<lparr>x3 = x3 a * s, y3 = y3 a * s, z3 = z3 a * s\<rparr>"

definition Vector3_divideScalar :: "Vector3 \<Rightarrow> real \<Rightarrow> Vector3" where
  "Vector3_divideScalar a s = Vector3_multiplyScalar a (1 / s)"

text \<open>
  three.js: \<open>normalize() { return this.divideScalar(this.length() || 1); }\<close>. A zero
  length is falsy, so the zero vector is divided by 1.
\<close>

definition Vector3_normalize :: "Vector3 \<Rightarrow> Vector3" where
  "Vector3_normalize a =
     Vector3_divideScalar a (if Vector3_length a = 0 then 1 else Vector3_length a)"

definition Vector3_dot :: "Vector3 \<Rightarrow> Vector3 \<Rightarrow> real" where
  "Vector3_dot a v = x3 a * x3 v + y3 a * y3 v + z3 a * z3 v"

text \<open>
  Vectors are objects: two fields may hold the same object, and \<open>Vector3.set\<close>
  overwrites it for every holder. The store maps references to the vectors they hold;
  \<open>nextRef\<close> is the first reference not yet handed out by \<open>new THREE.Vector3\<close>.
  \<open>tempTextElementPosition\<close> is the module-level scratch vector of \<open>Placement.ts\<close>: it is
  a \<open>const\<close> that is not exported, so no other field can hold it, and it is kept beside
  the store.
\<close>

type_synonym ref = nat

record World =
  vectors :: "ref \<Rightarrow> Vector3"
  nextRef :: ref
  tempTextElementPosition :: Vector3

definition newVector3 :: "World \<Rightarrow> Vector3 \<Rightarrow> ref \<times> World" where
  "newVector3 w v =
     (nextRef w, w\<lparr>vectors := (vectors w)(nextRef w := v), nextRef := Suc (nextRef w)\<rparr>)"

definition setVector3 :: "World \<Rightarrow> ref \<Rightarrow> Vector3 \<Rightarrow> World" where
  "setVector3 w r v = w\<lparr>vectors := (vectors w)(r := v)\<rparr>"

section \<open>The data of the placement pre-filter\<close>

datatype js_error = TypeError

datatype ProjectionType = Planar | Spherical

datatype PrePlacementResult = Ok | NotReady | Invisible | TooFar | Duplicate | Count

text \<open>
  \<open>TextElement.points\<close> is \<open>THREE.Vector3[] | THREE.Vector3\<close>. The class \<open>TextElement\<close> is
  not among the sources; the record has the fields that \<open>Placement.ts\<close> reads and writes
  (\<open>position\<close> is the value of the class's getter), and the fields from which the
  deduplication key is derived.
\<close>

datatype Points = SinglePoint ref | PointArray "ref list"

record TextElement =
  label :: string
  featureId :: "nat option"
  priority :: int
  points :: Points
  position :: ref
  tileCenter :: "ref option"
  visible :: bool
  minZoomLevel :: real
  maxZoomLevel :: real

record Tile =
  center :: ref

text \<open>
  Of the view, \<open>Placement.ts\<close> reads \<open>worldCenter\<close>, \<open>zoomLevel\<close>, \<open>projection.type\<close>, the
  camera's world direction (\<open>camera.getWorldDirection\<close> writes it into a fresh vector that
  is dropped on return, so it is a value here) and the POI manager, whose
  \<open>updatePoiFromPoiTable\<close> returns a flag and may change the text element.
\<close>

record MapView =
  worldCenter :: ref
  zoomLevel :: real
  projectionType :: ProjectionType
  cameraWorldDirection :: Vector3
  updatePoiFromPoiTable :: "TextElement \<Rightarrow> bool \<times> TextElement"

record Returned =
  result :: PrePlacementResult
  viewDistance :: "real option"

text \<open>
  Modelled from the spec: \<open>MathUtils.isClamped\<close> of the package \<open>harp-utils\<close>, which is
  not among the sources. The spec: the current zoom lies in \<open>[minZoom, maxZoom]\<close>.
\<close>

definition isClamped :: "real \<Rightarrow> real \<Rightarrow> real \<Rightarrow> bool" where
  "isClamped v lowerBound upperBound \<longleftrightarrow> lowerBound \<le> v \<and> v \<le> upperBound"

section \<open>Placement.ts\<close>

text \<open>
  \<open>tempTextElementPosition.copy(p).add(textElement.tileCenter!)\<close>: the scratch vector
  becomes the sum. The \<open>!\<close> is a compile-time assertion only; with \<open>tileCenter\<close> undefined
  \<open>add\<close> reads a field of \<open>undefined\<close> and throws a \<open>TypeError\<close>.
\<close>

definition copyAdd :: "World \<Rightarrow> ref \<Rightarrow> ref option \<Rightarrow> js_error + World" where
  "copyAdd w p c =
     (case c of
        None \<Rightarrow> Inl TypeError
      | Some r \<Rightarrow>
          Inr (w\<lparr>tempTextElementPosition := Vector3_add (vectors w p) (vectors w r)\<rparr>))"

definition computeViewDistance ::
  "World \<Rightarrow> ref \<Rightarrow> TextElement \<Rightarrow> js_error + real \<times> World" where
  "computeViewDistance w refPosition textElement =
     (let pointCase =
            (case copyAdd w (position textElement) (tileCenter textElement) of
               Inl e \<Rightarrow> Inl e
             | Inr w1 \<Rightarrow>
                 Inr (Vector3_distanceTo (vectors w1 refPosition) (tempTextElementPosition w1),
                      w1))
      in case points textElement of
           SinglePoint p \<Rightarrow> pointCase
         | PointArray ps \<Rightarrow>
             if length ps > 1 then
               (case copyAdd w (ps ! 0) (tileCenter textElement) of
                  Inl e \<Rightarrow> Inl e
                | Inr w1 \<Rightarrow>
                    (let viewDistance0 =
                           Vector3_distanceTo (vectors w1 refPosition)
                             (tempTextElementPosition w1)
                     in case copyAdd w1 (ps ! (length ps - 1)) (tileCenter textElement) of
                          Inl e \<Rightarrow> Inl e
                        | Inr w2 \<Rightarrow>
                            (let viewDistance1 =
                                   Vector3_distanceTo (vectors w2 refPosition)
                                     (tempTextElementPosition w2)
                             in Inr (min viewDistance0 viewDistance1, w2))))
             else pointCase)"

definition checkViewDistance ::
  "World \<Rightarrow> TextElement \<Rightarrow> MapView \<Rightarrow> real \<Rightarrow> js_error + real option \<times> World" where
  "checkViewDistance w textElement mapView maxViewDistance =
     (case computeViewDistance w (worldCenter mapView) textElement of
        Inl e \<Rightarrow> Inl e
      | Inr (textDistance, w1) \<Rightarrow>
          if projectionType mapView \<noteq> Spherical then
            Inr (if textDistance \<le> maxViewDistance then Some textDistance else None, w1)
          else
            (case copyAdd w1 (position textElement) (tileCenter textElement) of
               Inl e \<Rightarrow> Inl e
             | Inr w2 \<Rightarrow>
                 (let w3 = w2\<lparr>tempTextElementPosition :=
                                  Vector3_normalize (tempTextElementPosition w2)\<rparr>;
                      cameraDir = cameraWorldDirection mapView
                  in Inr (if Vector3_dot (tempTextElementPosition w3) cameraDir < - 0.6
                             \<and> textDistance \<le> maxViewDistance
                          then Some textDistance else None, w3))))"

definition getMaxViewDistance :: "real \<Rightarrow> real \<Rightarrow> real" where
  "getMaxViewDistance viewRangesMaximum farDistanceLimitRatio =
     viewRangesMaximum * farDistanceLimitRatio"

text \<open>
  Lines 150 to 158 of \<open>checkReadyForPlacement\<close>: a text element with no tile centre gets
  a new vector, otherwise the vector it holds is overwritten by \<open>set\<close>.
\<close>

definition shiftedTileCenter :: "World \<Rightarrow> Tile \<Rightarrow> real \<Rightarrow> Vector3" where
  "shiftedTileCenter w tile worldOffsetX =
     \<lparr>x3 = x3 (vectors w (center tile)) + worldOffsetX,
      y3 = y3 (vectors w (center tile)),
      z3 = z3 (vectors w (center tile))\<rparr>"

definition refreshTileCenter ::
  "World \<Rightarrow> TextElement \<Rightarrow> Tile \<Rightarrow> real \<Rightarrow> TextElement \<times> World" where
  "refreshTileCenter w textElement tile worldOffsetX =
     (case tileCenter textElement of
        None \<Rightarrow>
          (let (r, w') = newVector3 w (shiftedTileCenter w tile worldOffsetX)
           in (textElement\<lparr>tileCenter := Some r\<rparr>, w'))
      | Some r \<Rightarrow> (textElement, setVector3 w r (shiftedTileCenter w tile worldOffsetX)))"

text \<open>
  \<open>checkReadyForPlacement\<close>. The cache is an object of the class \<open>TextElementStateCache\<close>,
  which is not among the sources: its method \<open>deduplicateElement\<close> is the first
  argument, a function of the text element, the last frame number and the cache that
  returns its flag and the cache it leaves. The function returns what the source
  returns together with what it leaves of the text element, the store and the cache.
\<close>

definition checkReadyForPlacement ::
  "(TextElement \<Rightarrow> nat option \<Rightarrow> 'c \<Rightarrow> bool \<times> 'c) \<Rightarrow> World \<Rightarrow> TextElement \<Rightarrow> Tile \<Rightarrow> real
     \<Rightarrow> MapView \<Rightarrow> 'c \<Rightarrow> real option \<Rightarrow> nat option
     \<Rightarrow> js_error + Returned \<times> TextElement \<times> World \<times> 'c" where
  "checkReadyForPlacement deduplicateElement w textElement tile worldOffsetX mapView
       textElementCache maxViewDistance lastFrameNumber =
     (if \<not> visible textElement then
        Inr (\<lparr>result = Invisible, viewDistance = None\<rparr>, textElement, w, textElementCache)
      else
        (case updatePoiFromPoiTable mapView textElement of
           (False, te1) \<Rightarrow>
             Inr (\<lparr>result = NotReady, viewDistance = None\<rparr>, te1, w, textElementCache)
         | (True, te1) \<Rightarrow>
             if \<not> visible te1
                \<or> \<not> isClamped (zoomLevel mapView) (minZoomLevel te1) (maxZoomLevel te1)
             then
               Inr (\<lparr>result = Invisible, viewDistance = None\<rparr>, te1, w, textElementCache)
             else
               (let (te2, w1) = refreshTileCenter w te1 tile worldOffsetX
                in case (case maxViewDistance of
                           None \<Rightarrow>
                             (case computeViewDistance w1 (worldCenter mapView) te2 of
                                Inl e \<Rightarrow> Inl e
                              | Inr (d, w2) \<Rightarrow> Inr (Some d, w2))
                         | Some m \<Rightarrow> checkViewDistance w1 te2 mapView m) of
                     Inl e \<Rightarrow> Inl e
                   | Inr (None, w2) \<Rightarrow>
                       Inr (\<lparr>result = TooFar, viewDistance = None\<rparr>, te2, w2,
                            textElementCache)
                   | Inr (Some d, w2) \<Rightarrow>
                       (case deduplicateElement te2 lastFrameNumber textElementCache of
                          (False, cache1) \<Rightarrow>
                            Inr (\<lparr>result = Duplicate, viewDistance = None\<rparr>, te2, w2, cache1)
                        | (True, cache1) \<Rightarrow>
                            Inr (\<lparr>result = Ok, viewDistance = Some d\<rparr>, te2, w2, cache1)))))"

text \<open>
  What a call returned and what it left, read from its value; \<open>None\<close> when the call
  threw.
\<close>

definition resultOf ::
  "js_error + Returned \<times> TextElement \<times> World \<times> 'c \<Rightarrow> PrePlacementResult option" where
  "resultOf r = (case r of Inl e \<Rightarrow> None | Inr (ret, te', w', cache') \<Rightarrow> Some (result ret))"

definition viewDistanceOf ::
  "js_error + Returned \<times> TextElement \<times> World \<times> 'c \<Rightarrow> real option option" where
  "viewDistanceOf r =
     (case r of Inl e \<Rightarrow> None | Inr (ret, te', w', cache') \<Rightarrow> Some (viewDistance ret))"

definition elementOf ::
  "js_error + Returned \<times> TextElement \<times> World \<times> 'c \<Rightarrow> TextElement option" where
  "elementOf r = (case r of Inl e \<Rightarrow> None | Inr (ret, te', w', cache') \<Rightarrow> Some te')"

definition worldOf ::
  "js_error + Returned \<times> TextElement \<times> World \<times> 'c \<Rightarrow> World option" where
  "worldOf r = (case r of Inl e \<Rightarrow> None | Inr (ret, te', w', cache') \<Rightarrow> Some w')"

definition cacheOf ::
  "js_error + Returned \<times> TextElement \<times> World \<times> 'c \<Rightarrow> 'c option" where
  "cacheOf r = (case r of Inl e \<Rightarrow> None | Inr (ret, te', w', cache') \<Rightarrow> Some cache')"

section \<open>The pre-filter in the words of the spec\<close>

text \<open>
  What POI resolution answers and what it leaves of the candidate.
\<close>

definition poiReady :: "MapView \<Rightarrow> TextElement \<Rightarrow> bool" where
  "poiReady mapView textElement = fst (updatePoiFromPoiTable mapView textElement)"

definition resolved :: "MapView \<Rightarrow> TextElement \<Rightarrow> TextElement" where
  "resolved mapView textElement = snd (updatePoiFromPoiTable mapView textElement)"

text \<open>
  The candidate passes the first three rejection tests of the spec: it is visible, POI
  resolution is ready, and after it the candidate is visible and the zoom level is in
  its range.
\<close>

definition reachesDistanceCheck :: "MapView \<Rightarrow> TextElement \<Rightarrow> bool" where
  "reachesDistanceCheck mapView textElement \<longleftrightarrow>
     visible textElement \<and> poiReady mapView textElement
     \<and> visible (resolved mapView textElement)
     \<and> minZoomLevel (resolved mapView textElement) \<le> zoomLevel mapView
     \<and> zoomLevel mapView \<le> maxZoomLevel (resolved mapView textElement)"

text \<open>
  The world position of a point of the candidate: the point offset by the tile centre
  \<open>c\<close>. The view distance in the spec's words: for a path the minimum of the distances
  from the reference point to the first and to the last point, for a point label the
  distance to its position.
\<close>

definition offsetByTileCenter :: "World \<Rightarrow> ref \<Rightarrow> ref \<Rightarrow> Vector3" where
  "offsetByTileCenter w p c =
     \<lparr>x3 = x3 (vectors w p) + x3 (vectors w c),
      y3 = y3 (vectors w p) + y3 (vectors w c),
      z3 = z3 (vectors w p) + z3 (vectors w c)\<rparr>"

definition euclideanDistance :: "Vector3 \<Rightarrow> Vector3 \<Rightarrow> real" where
  "euclideanDistance a b = sqrt ((x3 a - x3 b)\<^sup>2 + (y3 a - y3 b)\<^sup>2 + (z3 a - z3 b)\<^sup>2)"

definition isPath :: "TextElement \<Rightarrow> bool" where
  "isPath textElement =
     (case points textElement of SinglePoint p \<Rightarrow> False | PointArray ps \<Rightarrow> 1 < length ps)"

definition pathPoints :: "TextElement \<Rightarrow> ref list" where
  "pathPoints textElement =
     (case points textElement of SinglePoint p \<Rightarrow> [] | PointArray ps \<Rightarrow> ps)"

definition viewDistanceSpec :: "World \<Rightarrow> ref \<Rightarrow> TextElement \<Rightarrow> ref \<Rightarrow> real" where
  "viewDistanceSpec w refPosition textElement c =
     (if isPath textElement then
        min (euclideanDistance (vectors w refPosition)
               (offsetByTileCenter w (hd (pathPoints textElement)) c))
            (euclideanDistance (vectors w refPosition)
               (offsetByTileCenter w (last (pathPoints textElement)) c))
      else
        euclideanDistance (vectors w refPosition)
          (offsetByTileCenter w (position textElement) c))"

text \<open>
  The facing test of the spherical projection: the dot product of the normalised world
  position of the candidate with the camera's forward direction is below \<open>- 0.6\<close>.
\<close>

definition facesCamera :: "World \<Rightarrow> TextElement \<Rightarrow> ref \<Rightarrow> MapView \<Rightarrow> bool" where
  "facesCamera w textElement c mapView \<longleftrightarrow>
     Vector3_dot (Vector3_normalize (offsetByTileCenter w (position textElement) c))
       (cameraWorldDirection mapView) < - 0.6"

text \<open>
  The tile centre that the candidate holds when the distance check runs, and the store
  at that moment.
\<close>

definition placedElement :: "World \<Rightarrow> TextElement \<Rightarrow> Tile \<Rightarrow> real \<Rightarrow> MapView \<Rightarrow> TextElement" where
  "placedElement w textElement tile worldOffsetX mapView =
     fst (refreshTileCenter w (resolved mapView textElement) tile worldOffsetX)"

definition placedWorld :: "World \<Rightarrow> TextElement \<Rightarrow> Tile \<Rightarrow> real \<Rightarrow> MapView \<Rightarrow> World" where
  "placedWorld w textElement tile worldOffsetX mapView =
     snd (refreshTileCenter w (resolved mapView textElement) tile worldOffsetX)"

definition placedCenter :: "World \<Rightarrow> TextElement \<Rightarrow> ref" where
  "placedCenter w textElement =
     (case tileCenter textElement of None \<Rightarrow> nextRef w | Some r \<Rightarrow> r)"

definition computedViewDistance ::
  "World \<Rightarrow> TextElement \<Rightarrow> Tile \<Rightarrow> real \<Rightarrow> MapView \<Rightarrow> real" where
  "computedViewDistance w textElement tile worldOffsetX mapView =
     viewDistanceSpec (placedWorld w textElement tile worldOffsetX mapView)
       (worldCenter mapView) (placedElement w textElement tile worldOffsetX mapView)
       (placedCenter w (resolved mapView textElement))"

definition candidateFacesCamera ::
  "World \<Rightarrow> TextElement \<Rightarrow> Tile \<Rightarrow> real \<Rightarrow> MapView \<Rightarrow> bool" where
  "candidateFacesCamera w textElement tile worldOffsetX mapView =
     facesCamera (placedWorld w textElement tile worldOffsetX mapView)
       (placedElement w textElement tile worldOffsetX mapView)
       (placedCenter w (resolved mapView textElement)) mapView"

text \<open>
  The world position of the candidate when the distance check runs: its position plus
  its tile centre.
\<close>

definition candidateWorldPosition ::
  "World \<Rightarrow> TextElement \<Rightarrow> Tile \<Rightarrow> real \<Rightarrow> MapView \<Rightarrow> Vector3" where
  "candidateWorldPosition w textElement tile worldOffsetX mapView =
     offsetByTileCenter (placedWorld w textElement tile worldOffsetX mapView)
       (position (placedElement w textElement tile worldOffsetX mapView))
       (placedCenter w (resolved mapView textElement))"

text \<open>
  The distance check of the spec: with no threshold nothing is rejected; with a
  threshold the view distance must not exceed it, and under the spherical projection the
  candidate must face the camera.
\<close>

definition passesDistanceCheck ::
  "World \<Rightarrow> TextElement \<Rightarrow> Tile \<Rightarrow> real \<Rightarrow> MapView \<Rightarrow> real option \<Rightarrow> bool" where
  "passesDistanceCheck w textElement tile worldOffsetX mapView maxViewDistance =
     (case maxViewDistance of
        None \<Rightarrow> True
      | Some m \<Rightarrow>
          computedViewDistance w textElement tile worldOffsetX mapView \<le> m
          \<and> (projectionType mapView = Planar
               \<or> candidateFacesCamera w textElement tile worldOffsetX mapView))"

section \<open>The text element state cache\<close>

text \<open>
  Modelled from the spec: \<open>TextElementStateCache.deduplicateElement\<close>, whose class is not
  among the sources. The spec: the deduplication key is derived from the source feature
  and the text content; \<open>deduplicateElement(candidate, lastFrameNumber)\<close> returns false
  if an equal-or-higher-priority instance of the same key was already accepted this
  frame, true otherwise, and records this candidate as the frame's representative for
  that key. The cache maps a key to the representative of the frame; it is empty when
  the frame starts.
\<close>

type_synonym deduplicationKey = "nat option \<times> string"

type_synonym TextElementStateCache = "deduplicationKey \<rightharpoonup> TextElement"

definition keyOf :: "TextElement \<Rightarrow> deduplicationKey" where
  "keyOf textElement = (featureId textElement, label textElement)"

definition deduplicateElement ::
  "TextElement \<Rightarrow> nat option \<Rightarrow> TextElementStateCache \<Rightarrow> bool \<times> TextElementStateCache" where
  "deduplicateElement candidate lastFrameNumber cache =
     (case cache (keyOf candidate) of
        None \<Rightarrow> (True, cache(keyOf candidate \<mapsto> candidate))
      | Some accepted \<Rightarrow>
          if priority candidate \<le> priority accepted then (False, cache)
          else (True, cache(keyOf candidate \<mapsto> candidate)))"










section \<open>The tile coordinates of the OMV data source\<close>

text \<open>
  \<open>OmvUtils.tile2world\<close> and \<open>OmvUtils.world2tile\<close> divide by a scale that the source
  computes with \<open>Math.log2\<close> and \<open>Math.pow\<close>, so here the special values of a JavaScript
  number are part of the model: a number is a real (arithmetic on reals is exact, with
  no rounding and no overflow), an infinity or \<open>NaN\<close>, and the operations follow IEEE 754
  on the special values. There is one zero: \<open>-0\<close> is not told apart from \<open>0\<close>, and a
  non-zero number divided by zero is the infinity of the sign of the numerator, as it is
  for the \<open>+0\<close> that \<open>Math.pow\<close> returns.
\<close>

datatype jsnum = Fin real | PosInf | NegInf | NaN

fun jneg :: "jsnum \<Rightarrow> jsnum" where
  "jneg (Fin a) = Fin (- a)"
| "jneg PosInf = NegInf"
| "jneg NegInf = PosInf"
| "jneg NaN = NaN"

fun jadd :: "jsnum \<Rightarrow> jsnum \<Rightarrow> jsnum" where
  "jadd (Fin a) (Fin b) = Fin (a + b)"
| "jadd NaN b = NaN"
| "jadd a NaN = NaN"
| "jadd PosInf NegInf = NaN"
| "jadd NegInf PosInf = NaN"
| "jadd PosInf b = PosInf"
| "jadd NegInf b = NegInf"
| "jadd a PosInf = PosInf"
| "jadd a NegInf = NegInf"

definition jsub :: "jsnum \<Rightarrow> jsnum \<Rightarrow> jsnum" where
  "jsub a b = jadd a (jneg b)"

text \<open>
  The infinity of the sign of a non-zero real, for products and quotients that
  overflow to an infinity.
\<close>

definition infinityOfSign :: "real \<Rightarrow> jsnum" where
  "infinityOfSign a = (if 0 < a then PosInf else NegInf)"

fun jmul :: "jsnum \<Rightarrow> jsnum \<Rightarrow> jsnum" where
  "jmul (Fin a) (Fin b) = Fin (a * b)"
| "jmul NaN b = NaN"
| "jmul a NaN = NaN"
| "jmul (Fin a) PosInf = (if a = 0 then NaN else infinityOfSign a)"
| "jmul (Fin a) NegInf = (if a = 0 then NaN else infinityOfSign (- a))"
| "jmul PosInf (Fin b) = (if b = 0 then NaN else infinityOfSign b)"
| "jmul NegInf (Fin b) = (if b = 0 then NaN else infinityOfSign (- b))"
| "jmul PosInf PosInf = PosInf"
| "jmul NegInf NegInf = PosInf"
| "jmul PosInf NegInf = NegInf"
| "jmul NegInf PosInf = NegInf"

fun jdiv :: "jsnum \<Rightarrow> jsnum \<Rightarrow> jsnum" where
  "jdiv (Fin a) (Fin b) =
     (if b \<noteq> 0 then Fin (a / b) else if a = 0 then NaN else infinityOfSign a)"
| "jdiv NaN b = NaN"
| "jdiv a NaN = NaN"
| "jdiv (Fin a) PosInf = Fin 0"
| "jdiv (Fin a) NegInf = Fin 0"
| "jdiv PosInf (Fin b) = (if 0 \<le> b then PosInf else NegInf)"
| "jdiv NegInf (Fin b) = (if 0 \<le> b then NegInf else PosInf)"
| "jdiv PosInf b = NaN"
| "jdiv NegInf b = NaN"

text \<open>
  \<open>Math.log\<close>, \<open>Math.log2\<close>, \<open>Math.pow(2, x)\<close>, \<open>Math.tan\<close>, \<open>Math.cos\<close>, \<open>Math.floor\<close> and
  \<open>Math.round\<close>. The logarithm of zero is \<open>-Infinity\<close> and that of a negative number is
  \<open>NaN\<close>; \<open>Math.pow(2, -Infinity)\<close> is zero. The tangent has no value where the cosine
  is zero. \<open>Math.round\<close> rounds a half upwards.
\<close>

fun Math_log :: "jsnum \<Rightarrow> jsnum" where
  "Math_log (Fin a) = (if 0 < a then Fin (ln a) else if a = 0 then NegInf else NaN)"
| "Math_log PosInf = PosInf"
| "Math_log NegInf = NaN"
| "Math_log NaN = NaN"

fun Math_log2 :: "jsnum \<Rightarrow> jsnum" where
  "Math_log2 (Fin a) = (if 0 < a then Fin (log 2 a) else if a = 0 then NegInf else NaN)"
| "Math_log2 PosInf = PosInf"
| "Math_log2 NegInf = NaN"
| "Math_log2 NaN = NaN"

fun Math_pow2 :: "jsnum \<Rightarrow> jsnum" where
  "Math_pow2 (Fin a) = Fin (2 powr a)"
| "Math_pow2 PosInf = PosInf"
| "Math_pow2 NegInf = Fin 0"
| "Math_pow2 NaN = NaN"

definition Math_tan :: "real \<Rightarrow> jsnum" where
  "Math_tan a = (if cos a = 0 then NaN else Fin (tan a))"

definition Math_cos :: "real \<Rightarrow> jsnum" where
  "Math_cos a = Fin (cos a)"

fun Math_floor :: "jsnum \<Rightarrow> jsnum" where
  "Math_floor (Fin a) = Fin (of_int \<lfloor>a\<rfloor>)"
| "Math_floor a = a"

fun Math_round :: "jsnum \<Rightarrow> jsnum" where
  "Math_round (Fin a) = Fin (of_int \<lfloor>a + 1 / 2\<rfloor>)"
| "Math_round a = a"

text \<open>
  The constants that the functions import from modules which are not among the sources:
  \<open>EarthConstants.EQUATORIAL_CIRCUMFERENCE\<close> and \<open>VTJsonDataAdapterId\<close>. They are parameters.
\<close>

record OmvConstants =
  EQUATORIAL_CIRCUMFERENCE :: real
  VTJsonDataAdapterId :: string

record Vector2 =
  x2 :: jsnum
  y2 :: jsnum

text \<open>
  The cookie's field \<open>top\<close> is written \<open>top'\<close>.
\<close>

record WorldTileProjectionCookie =
  extents :: real
  top' :: jsnum
  left :: jsnum
  scale :: jsnum

text \<open>
  Of \<open>OmvDecoder.DecodeInfo\<close> the functions read the north and west edge of the geo box,
  the level of the tile key and the adapter id, and they read and write the cached
  cookie.
\<close>

record DecodeInfo =
  geoBoxNorth :: real
  geoBoxWest :: real
  tileKeyLevel :: real
  adapterId :: string
  worldTileProjectionCookie :: "WorldTileProjectionCookie option"

definition lat2tile :: "real \<Rightarrow> jsnum \<Rightarrow> (jsnum \<Rightarrow> jsnum) \<Rightarrow> jsnum" where
  "lat2tile lat zoom func =
     func (jmul
       (jdiv
          (jsub (Fin 1)
             (jdiv
                (Math_log (jadd (Math_tan (lat * pi / 180))
                                (jdiv (Fin 1) (Math_cos (lat * pi / 180)))))
                (Fin pi)))
          (Fin 2))
       (Math_pow2 zoom))"

definition createWorldTileTransformationCookie ::
  "OmvConstants \<Rightarrow> real \<Rightarrow> DecodeInfo \<Rightarrow> WorldTileProjectionCookie" where
  "createWorldTileTransformationCookie K extents' decodeInfo =
     (let N = Math_log2 (Fin extents');
          scale' = Math_pow2 (jadd (Fin (tileKeyLevel decodeInfo)) N)
      in \<lparr>extents = extents',
          top' = lat2tile (geoBoxNorth decodeInfo) (jadd (Fin (tileKeyLevel decodeInfo)) N)
                  (if adapterId decodeInfo = VTJsonDataAdapterId K then Math_round
                   else Math_floor),
          left = jmul (Fin ((geoBoxWest decodeInfo + 180) / 360)) scale',
          scale = scale'\<rparr>)"

text \<open>
  Both functions start with the same statement: the cookie of the decode info is
  created and stored unless one for the same extents is cached. \<open>cookieInEffect\<close> is
  that statement; it returns the decode info it leaves and the cookie that is then read.
\<close>

definition cookieInEffect ::
  "OmvConstants \<Rightarrow> real \<Rightarrow> DecodeInfo \<Rightarrow> DecodeInfo \<times> WorldTileProjectionCookie" where
  "cookieInEffect K extents' decodeInfo =
     (case worldTileProjectionCookie decodeInfo of
        None \<Rightarrow>
          (decodeInfo\<lparr>worldTileProjectionCookie :=
             Some (createWorldTileTransformationCookie K extents' decodeInfo)\<rparr>,
           createWorldTileTransformationCookie K extents' decodeInfo)
      | Some c \<Rightarrow>
          if extents c \<noteq> extents' then
            (decodeInfo\<lparr>worldTileProjectionCookie :=
               Some (createWorldTileTransformationCookie K extents' decodeInfo)\<rparr>,
             createWorldTileTransformationCookie K extents' decodeInfo)
          else (decodeInfo, c))"

text \<open>
  \<open>target.set(...)\<close> evaluates both arguments before it writes, so the functions are
  modelled by the value that the target holds on return, together with the decode info.
\<close>

definition tile2world ::
  "OmvConstants \<Rightarrow> real \<Rightarrow> DecodeInfo \<Rightarrow> Vector2 \<Rightarrow> bool \<Rightarrow> DecodeInfo \<times> Vector2" where
  "tile2world K extents' decodeInfo position' flipY =
     (let (decodeInfo', c) = cookieInEffect K extents' decodeInfo;
          R = Fin (EQUATORIAL_CIRCUMFERENCE K)
      in (decodeInfo',
          \<lparr>x2 = jmul (jdiv (jadd (left c) (x2 position')) (scale c)) R,
           y2 = jmul (jdiv (jadd (top' c)
                               (if flipY then jneg (y2 position') else y2 position'))
                         (scale c)) R\<rparr>))"

definition world2tile ::
  "OmvConstants \<Rightarrow> real \<Rightarrow> DecodeInfo \<Rightarrow> Vector2 \<Rightarrow> bool \<Rightarrow> DecodeInfo \<times> Vector2" where
  "world2tile K extents' decodeInfo position' flipY =
     (let (decodeInfo', c) = cookieInEffect K extents' decodeInfo;
          R = Fin (EQUATORIAL_CIRCUMFERENCE K)
      in (decodeInfo',
          \<lparr>x2 = jsub (jmul (jdiv (x2 position') R) (scale c)) (left c),
           y2 = jmul (Fin (if flipY then - 1 else 1))
                  (jsub (jmul (jdiv (y2 position') R) (scale c)) (top' c))\<rparr>))"

text \<open>
  The two round trips: each applies the second function to the decode info and the
  vector that the first one left, with the same extents and the same flag.
\<close>

definition tileWorldTile :: "OmvConstants \<Rightarrow> real \<Rightarrow> DecodeInfo \<Rightarrow> Vector2 \<Rightarrow> bool \<Rightarrow> Vector2" where
  "tileWorldTile K extents' decodeInfo p flipY =
     (let (d1, q) = tile2world K extents' decodeInfo p flipY
      in snd (world2tile K extents' d1 q flipY))"

definition worldTileWorld :: "OmvConstants \<Rightarrow> real \<Rightarrow> DecodeInfo \<Rightarrow> Vector2 \<Rightarrow> bool \<Rightarrow> Vector2" where
  "worldTileWorld K extents' decodeInfo p flipY =
     (let (d1, q) = world2tile K extents' decodeInfo p flipY
      in snd (tile2world K extents' d1 q flipY))"

text \<open>
  A cookie can be divided by and subtracted when its numbers are real and its scale is
  not zero.
\<close>

definition isFinite :: "jsnum \<Rightarrow> bool" where
  "isFinite a = (case a of Fin r \<Rightarrow> True | PosInf \<Rightarrow> False | NegInf \<Rightarrow> False | NaN \<Rightarrow> False)"

definition usableCookie :: "WorldTileProjectionCookie \<Rightarrow> bool" where
  "usableCookie c \<longleftrightarrow>
     isFinite (top' c) \<and> isFinite (left c) \<and> isFinite (scale c) \<and> scale c \<noteq> Fin 0"

definition cachedCookieUsable :: "real \<Rightarrow> DecodeInfo \<Rightarrow> bool" where
  "cachedCookieUsable extents' decodeInfo =
     (case worldTileProjectionCookie decodeInfo of
        None \<Rightarrow> True
      | Some c \<Rightarrow> extents c \<noteq> extents' \<or> usableCookie c)"

text \<open>
  Values for the two constants (the circumference of a sphere of radius 6378137 m), and
  a decode info for the south-western tile of level 1 with no cached cookie.
\<close>

definition omvConstants :: OmvConstants where
  "omvConstants =
     \<lparr>EQUATORIAL_CIRCUMFERENCE = 2 * pi * 6378137, VTJsonDataAdapterId = ''vt-json''\<rparr>"

definition worldTileInfo :: DecodeInfo where
  "worldTileInfo =
     \<lparr>geoBoxNorth = 0, geoBoxWest = - 180, tileKeyLevel = 1, adapterId = ''omv'',
      worldTileProjectionCookie = None\<rparr>"

section \<open>The fade state machine\<close>

text \<open>
  Modelled from the spec: the fade state machine of the text elements renderer
  (\<open>TextElementsRenderer\<close> and \<open>RenderState\<close>), which is not among the sources; only its
  test is. The spec (sections 3, 4.3 and 4.5), read as follows.

  \<^item> A label state holds the current opacity, the state of the fade, the fade-start time
    and the opacity at which the fade started. \<open>getOrCreateState\<close> creates it with opacity
    0, fading in, at the first acceptance.
  \<^item> Fading in, the opacity rises from its start point towards 1 over the fade
    duration, at the fixed rate of one over the duration per unit of time, bounded to
    \<open>[0, 1]\<close>; fading out, it falls at the same rate. At opacity 1 the label is steady, at
    opacity 0 it is gone.
  \<^item> A label that fades in or is steady and is not accepted in a frame starts to fade
    out from its current opacity; a label that fades out and is accepted again starts
    to fade in from its current opacity.
  \<^item> A frame whose clock value is 0 is ignored. In every other frame an accepted label
    is submitted with its opacity, and a tracked label that is not accepted is
    submitted while its opacity is above zero.

  A frame is the clock value and whether the label was accepted in it (the pre-filter
  returned \<open>Ok\<close> and the collision test passed).
\<close>

datatype FadeState = FadingIn | Steady | FadingOut | Gone

record LabelState =
  opacity :: real
  fadeState :: FadeState
  fadeStartTime :: real
  fadeStartOpacity :: real

definition clampOpacity :: "real \<Rightarrow> real" where
  "clampOpacity v = max 0 (min 1 v)"

definition startFadeIn :: "real \<Rightarrow> real \<Rightarrow> LabelState" where
  "startFadeIn time startOpacity =
     \<lparr>opacity = startOpacity,
      fadeState = (if startOpacity = 1 then Steady else FadingIn),
      fadeStartTime = time, fadeStartOpacity = startOpacity\<rparr>"

definition startFadeOut :: "real \<Rightarrow> real \<Rightarrow> LabelState" where
  "startFadeOut time startOpacity =
     \<lparr>opacity = startOpacity,
      fadeState = (if startOpacity = 0 then Gone else FadingOut),
      fadeStartTime = time, fadeStartOpacity = startOpacity\<rparr>"

definition fadeIn :: "real \<Rightarrow> real \<Rightarrow> LabelState \<Rightarrow> LabelState" where
  "fadeIn fadeTime time st =
     (let v = clampOpacity (fadeStartOpacity st + (time - fadeStartTime st) / fadeTime)
      in st\<lparr>opacity := v, fadeState := (if v = 1 then Steady else FadingIn)\<rparr>)"

definition fadeOut :: "real \<Rightarrow> real \<Rightarrow> LabelState \<Rightarrow> LabelState" where
  "fadeOut fadeTime time st =
     (let v = clampOpacity (fadeStartOpacity st - (time - fadeStartTime st) / fadeTime)
      in st\<lparr>opacity := v, fadeState := (if v = 0 then Gone else FadingOut)\<rparr>)"

fun updateFade :: "real \<Rightarrow> real \<Rightarrow> bool \<Rightarrow> LabelState option \<Rightarrow> LabelState option" where
  "updateFade fadeTime time accepted None =
     (if accepted then Some (startFadeIn time 0) else None)"
| "updateFade fadeTime time accepted (Some st) =
     Some (case fadeState st of
             FadingIn \<Rightarrow>
               if accepted then fadeIn fadeTime time st else startFadeOut time (opacity st)
           | Steady \<Rightarrow> if accepted then st else startFadeOut time (opacity st)
           | FadingOut \<Rightarrow>
               if accepted then startFadeIn time (opacity st) else fadeOut fadeTime time st
           | Gone \<Rightarrow> if accepted then startFadeIn time (opacity st) else st)"

definition submittedOpacity :: "bool \<Rightarrow> LabelState option \<Rightarrow> real option" where
  "submittedOpacity accepted tracked =
     (case tracked of
        None \<Rightarrow> None
      | Some st \<Rightarrow> if accepted \<or> 0 < opacity st then Some (opacity st) else None)"

definition placeText ::
  "real \<Rightarrow> real \<Rightarrow> bool \<Rightarrow> LabelState option \<Rightarrow> LabelState option \<times> real option" where
  "placeText fadeTime time accepted tracked =
     (if time = 0 then (tracked, None)
      else (updateFade fadeTime time accepted tracked,
            submittedOpacity accepted (updateFade fadeTime time accepted tracked)))"

text \<open>
  A run of frames: the opacities submitted, frame by frame (\<open>None\<close> where nothing is
  submitted), and the state that the run leaves.
\<close>

fun renderFrames :: "real \<Rightarrow> LabelState option \<Rightarrow> (real \<times> bool) list \<Rightarrow> real option list" where
  "renderFrames fadeTime tracked [] = []"
| "renderFrames fadeTime tracked ((time, accepted) # frames) =
     snd (placeText fadeTime time accepted tracked)
       # renderFrames fadeTime (fst (placeText fadeTime time accepted tracked)) frames"

fun stateAfter :: "real \<Rightarrow> LabelState option \<Rightarrow> (real \<times> bool) list \<Rightarrow> LabelState option" where
  "stateAfter fadeTime tracked [] = tracked"
| "stateAfter fadeTime tracked ((time, accepted) # frames) =
     stateAfter fadeTime (fst (placeText fadeTime time accepted tracked)) frames"

definition currentOpacity :: "LabelState option \<Rightarrow> real" where
  "currentOpacity tracked = (case tracked of None \<Rightarrow> 0 | Some st \<Rightarrow> opacity st)"

definition currentFade :: "LabelState option \<Rightarrow> FadeState" where
  "currentFade tracked = (case tracked of None \<Rightarrow> Gone | Some st \<Rightarrow> fadeState st)"

text \<open>
  The words of the fade claims: a submitted opacity is in range; a state is consistent
  when its opacities are in range and agree with its fade state; in a run of frames in
  which the label is accepted throughout (or throughout not) no clock value is 0 or
  earlier than the start of the fade.
\<close>

definition inRange :: "real option \<Rightarrow> bool" where
  "inRange v = (case v of None \<Rightarrow> True | Some a \<Rightarrow> 0 \<le> a \<and> a \<le> 1)"

definition consistent :: "LabelState \<Rightarrow> bool" where
  "consistent st \<longleftrightarrow>
     0 \<le> opacity st \<and> opacity st \<le> 1
     \<and> 0 \<le> fadeStartOpacity st \<and> fadeStartOpacity st \<le> 1
     \<and> (case fadeState st of
          FadingIn \<Rightarrow> opacity st < 1
        | Steady \<Rightarrow> opacity st = 1
        | FadingOut \<Rightarrow> 0 < opacity st
        | Gone \<Rightarrow> opacity st = 0)"

definition trackedConsistent :: "LabelState option \<Rightarrow> bool" where
  "trackedConsistent tracked = (case tracked of None \<Rightarrow> True | Some st \<Rightarrow> consistent st)"

definition heldFrom :: "real \<Rightarrow> bool \<Rightarrow> (real \<times> bool) list \<Rightarrow> bool" where
  "heldFrom start accepted frames =
     list_all (\<lambda>(time, a). a = accepted \<and> start \<le> time \<and> time \<noteq> 0) frames"

section \<open>A concrete scene\<close>

text \<open>
  The scene of the test fixture: the view centre at the origin, a point label at the
  origin whose tile centre was set beforehand to a vector \<open>(0, 0, 1)\<close>, a tile whose
  centre is \<open>(0, 0, 1)\<close>, zoom level 0, and a POI manager that is always ready and changes
  nothing. References 0 to 4 are handed out; reference 4 is a second point \<open>(0, 0, 1)\<close>
  for a path.
\<close>

definition origin :: Vector3 where
  "origin = \<lparr>x3 = 0, y3 = 0, z3 = 0\<rparr>"

definition sceneWorld :: World where
  "sceneWorld =
     \<lparr>vectors = (\<lambda>r. origin)(1 := \<lparr>x3 = 0, y3 = 0, z3 = 1\<rparr>, 3 := \<lparr>x3 = 0, y3 = 0, z3 = 1\<rparr>,
                  4 := \<lparr>x3 = 0, y3 = 0, z3 = 1\<rparr>),
      nextRef = 5, tempTextElementPosition = origin\<rparr>"

definition sceneTile :: Tile where
  "sceneTile = \<lparr>center = 1\<rparr>"

definition sceneLabel :: TextElement where
  "sceneLabel =
     \<lparr>label = ''Text'', featureId = None, priority = 0, points = SinglePoint 2,
      position = 2, tileCenter = Some 3, visible = True, minZoomLevel = 0,
      maxZoomLevel = 20\<rparr>"

definition sceneView :: MapView where
  "sceneView =
     \<lparr>worldCenter = 0, zoomLevel = 0, projectionType = Planar,
      cameraWorldDirection = \<lparr>x3 = 0, y3 = 0, z3 = - 1\<rparr>,
      updatePoiFromPoiTable = (\<lambda>te. (True, te))\<rparr>"

text \<open>
  Variants of the scene: a globe view, a POI manager that hides the candidate, a label
  that holds the tile's own centre vector as its tile centre, and a path label.
\<close>

definition globeView :: MapView where
  "globeView = sceneView\<lparr>projectionType := Spherical\<rparr>"

definition hidingView :: MapView where
  "hidingView = sceneView\<lparr>updatePoiFromPoiTable := (\<lambda>te. (True, te\<lparr>visible := False\<rparr>))\<rparr>"

definition aliasedLabel :: TextElement where
  "aliasedLabel = sceneLabel\<lparr>tileCenter := Some 1\<rparr>"

definition pathLabel :: TextElement where
  "pathLabel = sceneLabel\<lparr>points := PointArray [4, 2], position := 4\<rparr>"



text \<open>
  A label at the point \<open>(0, 0, 1)\<close>, whose world position \<open>(0, 0, 2)\<close> is not a unit
  vector, and a globe view whose camera looks along \<open>(0, 4/5, -3/5)\<close>.
\<close>

definition deepLabel :: TextElement where
  "deepLabel = sceneLabel\<lparr>points := SinglePoint 4, position := 4\<rparr>"

definition tiltedView :: MapView where
  "tiltedView = globeView\<lparr>cameraWorldDirection := \<lparr>x3 = 0, y3 = 4 / 5, z3 = - (3 / 5)\<rparr>\<rparr>"


section \<open>Properties of the placement pre-filter\<close>

lemma copyAdd_Some:
  "copyAdd w p (Some r) =
     Inr (w\<lparr>tempTextElementPosition := offsetByTileCenter w p r\<rparr>)"
  by (simp add: copyAdd_def offsetByTileCenter_def Vector3_add_def)

lemma distanceTo_euclidean: "Vector3_distanceTo a b = euclideanDistance a b"
  by (simp add: Vector3_distanceTo_def Vector3_distanceToSquared_def euclideanDistance_def
      power2_eq_square Let_def)

lemma computeViewDistance_value:
  assumes "tileCenter te = Some c"
  shows "\<exists>t. computeViewDistance w refPosition te =
           Inr (viewDistanceSpec w refPosition te c, w\<lparr>tempTextElementPosition := t\<rparr>)"
proof (cases "points te")
  case (SinglePoint p)
  then show ?thesis using assms
    by (auto simp: computeViewDistance_def viewDistanceSpec_def copyAdd_Some isPath_def
        distanceTo_euclidean)
next
  case (PointArray ps)
  show ?thesis
  proof (cases "length ps > 1")
    case True
    then have "ps \<noteq> []" by auto
    then have "ps ! 0 = hd ps" "ps ! (length ps - 1) = last ps"
      by (simp_all add: hd_conv_nth last_conv_nth)
    then show ?thesis using assms PointArray True
      by (auto simp: computeViewDistance_def viewDistanceSpec_def copyAdd_Some Let_def
          isPath_def pathPoints_def distanceTo_euclidean offsetByTileCenter_def)
  next
    case False
    then show ?thesis using assms PointArray
      by (auto simp: computeViewDistance_def viewDistanceSpec_def copyAdd_Some isPath_def
          distanceTo_euclidean)
  qed
qed

lemma checkViewDistance_value:
  assumes "tileCenter te = Some c"
  shows "\<exists>t. checkViewDistance w te mapView m =
           Inr (if viewDistanceSpec w (worldCenter mapView) te c \<le> m
                   \<and> (projectionType mapView = Planar \<or> facesCamera w te c mapView)
                then Some (viewDistanceSpec w (worldCenter mapView) te c) else None,
                w\<lparr>tempTextElementPosition := t\<rparr>)"
proof -
  obtain t where t: "computeViewDistance w (worldCenter mapView) te =
      Inr (viewDistanceSpec w (worldCenter mapView) te c, w\<lparr>tempTextElementPosition := t\<rparr>)"
    using computeViewDistance_value[OF assms] by blast
  show ?thesis
  proof (cases "projectionType mapView")
    case Planar
    then show ?thesis using t by (auto simp: checkViewDistance_def)
  next
    case Spherical
    then show ?thesis using t assms
      by (auto simp: checkViewDistance_def copyAdd_Some facesCamera_def Let_def
          offsetByTileCenter_def)
  qed
qed

lemma refreshTileCenter_eq:
  "refreshTileCenter w te tile off =
     (te\<lparr>tileCenter := Some (placedCenter w te)\<rparr>,
      w\<lparr>vectors := (vectors w)(placedCenter w te := shiftedTileCenter w tile off),
        nextRef := (if tileCenter te = None then Suc (nextRef w) else nextRef w)\<rparr>)"
  by (cases "tileCenter te")
     (simp_all add: refreshTileCenter_def placedCenter_def newVector3_def setVector3_def)

lemma placedElement_tileCenter:
  "tileCenter (placedElement w te tile off mv) = Some (placedCenter w (resolved mv te))"
  by (simp add: placedElement_def refreshTileCenter_eq)

text \<open>The early rejections.\<close>

lemma check_invisible:
  "\<not> visible te \<Longrightarrow>
   checkReadyForPlacement dedup w te tile off mv cache maxD lf =
     Inr (\<lparr>result = Invisible, viewDistance = None\<rparr>, te, w, cache)"
  by (simp add: checkReadyForPlacement_def)

lemma check_notReady:
  "visible te \<Longrightarrow> \<not> poiReady mv te \<Longrightarrow>
   checkReadyForPlacement dedup w te tile off mv cache maxD lf =
     Inr (\<lparr>result = NotReady, viewDistance = None\<rparr>, resolved mv te, w, cache)"
  by (cases "updatePoiFromPoiTable mv te")
     (simp add: checkReadyForPlacement_def poiReady_def resolved_def)

lemma check_invisible_resolved:
  "visible te \<Longrightarrow> poiReady mv te \<Longrightarrow> \<not> reachesDistanceCheck mv te \<Longrightarrow>
   checkReadyForPlacement dedup w te tile off mv cache maxD lf =
     Inr (\<lparr>result = Invisible, viewDistance = None\<rparr>, resolved mv te, w, cache)"
  by (cases "updatePoiFromPoiTable mv te")
     (auto simp: checkReadyForPlacement_def poiReady_def resolved_def reachesDistanceCheck_def
        isClamped_def)

lemma check_reached:
  assumes "reachesDistanceCheck mv te"
  shows "\<exists>t. checkReadyForPlacement dedup w te tile off mv cache maxD lf =
     Inr (if \<not> passesDistanceCheck w te tile off mv maxD then
            (\<lparr>result = TooFar, viewDistance = None\<rparr>, placedElement w te tile off mv,
             (placedWorld w te tile off mv)\<lparr>tempTextElementPosition := t\<rparr>, cache)
          else if \<not> fst (dedup (placedElement w te tile off mv) lf cache) then
            (\<lparr>result = Duplicate, viewDistance = None\<rparr>, placedElement w te tile off mv,
             (placedWorld w te tile off mv)\<lparr>tempTextElementPosition := t\<rparr>,
             snd (dedup (placedElement w te tile off mv) lf cache))
          else
            (\<lparr>result = Ok, viewDistance = Some (computedViewDistance w te tile off mv)\<rparr>,
             placedElement w te tile off mv,
             (placedWorld w te tile off mv)\<lparr>tempTextElementPosition := t\<rparr>,
             snd (dedup (placedElement w te tile off mv) lf cache)))"
proof -
  define te2 where "te2 = placedElement w te tile off mv"
  define w1 where "w1 = placedWorld w te tile off mv"
  define c where "c = placedCenter w (resolved mv te)"
  have tc: "tileCenter te2 = Some c"
    by (simp add: te2_def c_def placedElement_tileCenter)
  have rf: "refreshTileCenter w (resolved mv te) tile off = (te2, w1)"
    by (simp add: te2_def w1_def placedElement_def placedWorld_def)
  obtain b te1 where u: "updatePoiFromPoiTable mv te = (b, te1)"
    by (cases "updatePoiFromPoiTable mv te")
  from assms u have b: "b" and te1: "te1 = resolved mv te"
    and vis: "visible te" "visible te1"
    and cl: "isClamped (zoomLevel mv) (minZoomLevel te1) (maxZoomLevel te1)"
    by (simp_all add: reachesDistanceCheck_def poiReady_def resolved_def isClamped_def)
  show ?thesis
  proof (cases maxD)
    case None
    obtain t where t: "computeViewDistance w1 (worldCenter mv) te2 =
        Inr (viewDistanceSpec w1 (worldCenter mv) te2 c, w1\<lparr>tempTextElementPosition := t\<rparr>)"
      using computeViewDistance_value[OF tc] by blast
    show ?thesis
      apply (rule exI[of _ t])
      using None u b vis cl rf t te1
      apply (cases "dedup te2 lf cache"; cases "fst (dedup te2 lf cache)")
      apply (simp_all add: checkReadyForPlacement_def passesDistanceCheck_def
          computedViewDistance_def te2_def[symmetric] w1_def[symmetric] c_def[symmetric])
      done
  next
    case (Some m)
    obtain t where t: "checkViewDistance w1 te2 mv m =
           Inr (if viewDistanceSpec w1 (worldCenter mv) te2 c \<le> m
                   \<and> (projectionType mv = Planar \<or> facesCamera w1 te2 c mv)
                then Some (viewDistanceSpec w1 (worldCenter mv) te2 c) else None,
                w1\<lparr>tempTextElementPosition := t\<rparr>)"
      using checkViewDistance_value[OF tc] by blast
    show ?thesis
      apply (rule exI[of _ t])
      using Some u b vis cl rf t te1
      apply (cases "dedup te2 lf cache"; cases "fst (dedup te2 lf cache)")
      apply (simp_all add: checkReadyForPlacement_def passesDistanceCheck_def
          computedViewDistance_def candidateFacesCamera_def
          te2_def[symmetric] w1_def[symmetric] c_def[symmetric])
      done
  qed
qed

lemma check_not_reached:
  assumes "\<not> reachesDistanceCheck mv te"
  shows "checkReadyForPlacement dedup w te tile off mv cache maxD lf =
     Inr (\<lparr>result = (if visible te \<and> \<not> poiReady mv te then NotReady else Invisible),
           viewDistance = None\<rparr>,
          if visible te then resolved mv te else te, w, cache)"
  using assms check_invisible[where te=te and dedup=dedup and w=w and tile=tile and off=off
      and mv=mv and cache=cache and maxD=maxD and lf=lf]
    check_notReady[where te=te and dedup=dedup and w=w and tile=tile and off=off
      and mv=mv and cache=cache and maxD=maxD and lf=lf]
    check_invisible_resolved[where te=te and dedup=dedup and w=w and tile=tile and off=off
      and mv=mv and cache=cache and maxD=maxD and lf=lf]
  by (cases "visible te"; cases "poiReady mv te") simp_all

lemma check_result:
  "resultOf (checkReadyForPlacement dedup w te tile off mv cache maxD lf) =
     Some (if \<not> reachesDistanceCheck mv te then
             (if visible te \<and> \<not> poiReady mv te then NotReady else Invisible)
           else if \<not> passesDistanceCheck w te tile off mv maxD then TooFar
           else if \<not> fst (dedup (placedElement w te tile off mv) lf cache) then Duplicate
           else Ok)"
proof (cases "reachesDistanceCheck mv te")
  case True
  from check_reached[OF True, where dedup=dedup and w=w and tile=tile and off=off
      and cache=cache and maxD=maxD and lf=lf] True
  show ?thesis by (auto simp: resultOf_def)
next
  case False
  from check_not_reached[OF False, where dedup=dedup and w=w and tile=tile and off=off
      and cache=cache and maxD=maxD and lf=lf] False
  show ?thesis by (simp add: resultOf_def)
qed

lemma check_viewDistance:
  "viewDistanceOf (checkReadyForPlacement dedup w te tile off mv cache maxD lf) =
     Some (if reachesDistanceCheck mv te \<and> passesDistanceCheck w te tile off mv maxD
              \<and> fst (dedup (placedElement w te tile off mv) lf cache)
           then Some (computedViewDistance w te tile off mv) else None)"
proof (cases "reachesDistanceCheck mv te")
  case True
  from check_reached[OF True, where dedup=dedup and w=w and tile=tile and off=off
      and cache=cache and maxD=maxD and lf=lf] True
  show ?thesis by (auto simp: viewDistanceOf_def)
next
  case False
  from check_not_reached[OF False, where dedup=dedup and w=w and tile=tile and off=off
      and cache=cache and maxD=maxD and lf=lf] False
  show ?thesis by (simp add: viewDistanceOf_def)
qed

lemma check_element:
  "elementOf (checkReadyForPlacement dedup w te tile off mv cache maxD lf) =
     Some (if reachesDistanceCheck mv te then placedElement w te tile off mv
           else if visible te then resolved mv te else te)"
proof (cases "reachesDistanceCheck mv te")
  case True
  from check_reached[OF True, where dedup=dedup and w=w and tile=tile and off=off
      and cache=cache and maxD=maxD and lf=lf] True
  show ?thesis by (auto simp: elementOf_def)
next
  case False
  from check_not_reached[OF False, where dedup=dedup and w=w and tile=tile and off=off
      and cache=cache and maxD=maxD and lf=lf] False
  show ?thesis by (simp add: elementOf_def)
qed

lemma check_vectors:
  "map_option vectors (worldOf (checkReadyForPlacement dedup w te tile off mv cache maxD lf)) =
     Some (if reachesDistanceCheck mv te then vectors (placedWorld w te tile off mv)
           else vectors w)"
proof (cases "reachesDistanceCheck mv te")
  case True
  from check_reached[OF True, where dedup=dedup and w=w and tile=tile and off=off
      and cache=cache and maxD=maxD and lf=lf] True
  show ?thesis by (auto simp: worldOf_def)
next
  case False
  from check_not_reached[OF False, where dedup=dedup and w=w and tile=tile and off=off
      and cache=cache and maxD=maxD and lf=lf] False
  show ?thesis by (simp add: worldOf_def)
qed


lemma check_cache:
  "cacheOf (checkReadyForPlacement dedup w te tile off mv cache maxD lf) =
     Some (if reachesDistanceCheck mv te \<and> passesDistanceCheck w te tile off mv maxD
           then snd (dedup (placedElement w te tile off mv) lf cache) else cache)"
proof (cases "reachesDistanceCheck mv te")
  case True
  from check_reached[OF True, where dedup=dedup and w=w and tile=tile and off=off
      and cache=cache and maxD=maxD and lf=lf] True
  show ?thesis by (auto simp: cacheOf_def)
next
  case False
  from check_not_reached[OF False, where dedup=dedup and w=w and tile=tile and off=off
      and cache=cache and maxD=maxD and lf=lf] False
  show ?thesis by (simp add: cacheOf_def)
qed

lemma placedElement_eq:
  "placedElement w te tile off mv =
     (resolved mv te)\<lparr>tileCenter := Some (placedCenter w (resolved mv te))\<rparr>"
  by (simp add: placedElement_def refreshTileCenter_eq)

lemma placedWorld_vectors:
  "vectors (placedWorld w te tile off mv) =
     (vectors w)(placedCenter w (resolved mv te) := shiftedTileCenter w tile off)"
  by (simp add: placedWorld_def refreshTileCenter_eq)


text \<open>The scene, evaluated.\<close>

lemma sceneView_resolved: "resolved sceneView te = te" "poiReady sceneView te"
  by (simp_all add: resolved_def poiReady_def sceneView_def)

lemma globeView_resolved: "resolved globeView te = te" "poiReady globeView te"
  by (simp_all add: resolved_def poiReady_def globeView_def sceneView_def)

lemma hidingView_resolved:
  "resolved hidingView te = te\<lparr>visible := False\<rparr>" "poiReady hidingView te"
  by (simp_all add: resolved_def poiReady_def hidingView_def sceneView_def)

lemma sceneLabel_reaches:
  "reachesDistanceCheck sceneView sceneLabel" "reachesDistanceCheck globeView sceneLabel"
  by (simp_all add: reachesDistanceCheck_def sceneView_resolved globeView_resolved)
     (simp_all add: sceneLabel_def sceneView_def globeView_def)

lemma sceneLabel_center: "placedCenter sceneWorld sceneLabel = 3"
  by (simp add: placedCenter_def sceneLabel_def)

lemma scene_shifted:
  "shiftedTileCenter sceneWorld sceneTile off = \<lparr>x3 = off, y3 = 0, z3 = 1\<rparr>"
  by (simp add: shiftedTileCenter_def sceneWorld_def sceneTile_def)

lemma scene_offset:
  "offsetByTileCenter (placedWorld sceneWorld sceneLabel sceneTile off sceneView) 2 3
     = \<lparr>x3 = off, y3 = 0, z3 = 1\<rparr>"
  "offsetByTileCenter (placedWorld sceneWorld sceneLabel sceneTile off globeView) 2 3
     = \<lparr>x3 = off, y3 = 0, z3 = 1\<rparr>"
  by (simp_all add: offsetByTileCenter_def placedWorld_vectors sceneView_resolved
      globeView_resolved sceneLabel_center scene_shifted)
     (simp_all add: sceneWorld_def origin_def)

lemma scene_distance:
  "computedViewDistance sceneWorld sceneLabel sceneTile 0 sceneView = 1"
  "computedViewDistance sceneWorld sceneLabel sceneTile 0 globeView = 1"
proof -
  have p: "\<not> isPath (sceneLabel\<lparr>tileCenter := Some 3\<rparr>)"
    "position (sceneLabel\<lparr>tileCenter := Some 3\<rparr>) = 2"
    by (simp_all add: isPath_def sceneLabel_def)
  have r: "vectors (placedWorld sceneWorld sceneLabel sceneTile 0 sceneView) 0 = origin"
    "vectors (placedWorld sceneWorld sceneLabel sceneTile 0 globeView) 0 = origin"
    "worldCenter sceneView = 0" "worldCenter globeView = 0"
    by (simp_all add: placedWorld_vectors sceneView_resolved globeView_resolved
        sceneLabel_center)
       (simp_all add: sceneWorld_def globeView_def sceneView_def)
  show "computedViewDistance sceneWorld sceneLabel sceneTile 0 sceneView = 1"
    by (simp add: computedViewDistance_def placedElement_eq sceneView_resolved
        sceneLabel_center viewDistanceSpec_def p r scene_offset)
       (simp add: euclideanDistance_def origin_def)
  show "computedViewDistance sceneWorld sceneLabel sceneTile 0 globeView = 1"
    by (simp add: computedViewDistance_def placedElement_eq globeView_resolved
        sceneLabel_center viewDistanceSpec_def p r scene_offset)
       (simp add: euclideanDistance_def origin_def)
qed

lemma scene_faces: "candidateFacesCamera sceneWorld sceneLabel sceneTile 0 globeView"
proof -
  have p: "position (sceneLabel\<lparr>tileCenter := Some 3\<rparr>) = 2"
    by (simp add: sceneLabel_def)
  have n: "Vector3_normalize \<lparr>x3 = 0, y3 = 0, z3 = 1\<rparr> = \<lparr>x3 = 0, y3 = 0, z3 = 1\<rparr>"
    by (simp add: Vector3_normalize_def Vector3_length_def Vector3_divideScalar_def
        Vector3_multiplyScalar_def)
  show ?thesis
    by (simp add: candidateFacesCamera_def facesCamera_def placedElement_eq
        globeView_resolved sceneLabel_center p scene_offset n)
       (simp add: Vector3_dot_def globeView_def sceneView_def)
qed

lemma scene_dedup:
  "fst (deduplicateElement te lf Map.empty)"
  by (simp add: deduplicateElement_def)

lemma scene_passes:
  "passesDistanceCheck sceneWorld sceneLabel sceneTile 0 sceneView (Some m) \<longleftrightarrow> 1 \<le> m"
  by (simp add: passesDistanceCheck_def scene_distance) (simp add: sceneView_def)

lemma globe_passes:
  "passesDistanceCheck sceneWorld sceneLabel sceneTile 0 globeView (Some m) \<longleftrightarrow> 1 \<le> m"
  by (simp add: passesDistanceCheck_def scene_distance scene_faces)

lemma sceneLabel_fields:
  "visible sceneLabel" "minZoomLevel sceneLabel = 0" "maxZoomLevel sceneLabel = 20"
  "zoomLevel sceneView = 0" "zoomLevel globeView = 0"
  by (simp_all add: sceneLabel_def sceneView_def globeView_def)

lemma pathLabel_fields:
  "tileCenter pathLabel = Some 3" "isPath pathLabel" "pathPoints pathLabel = [4, 2]"
  "tileCenter sceneLabel = Some 3" "\<not> isPath sceneLabel" "position sceneLabel = 2"
  by (simp_all add: pathLabel_def sceneLabel_def isPath_def pathPoints_def)

lemma sceneWorld_offsets:
  "offsetByTileCenter sceneWorld 4 3 = \<lparr>x3 = 0, y3 = 0, z3 = 2\<rparr>"
  "offsetByTileCenter sceneWorld 2 3 = \<lparr>x3 = 0, y3 = 0, z3 = 1\<rparr>"
  "vectors sceneWorld 0 = origin"
  by (simp_all add: offsetByTileCenter_def sceneWorld_def origin_def)

lemma scene_dedup_taken:
  "\<not> fst (deduplicateElement (placedElement sceneWorld sceneLabel sceneTile 0 sceneView) None
       [keyOf sceneLabel \<mapsto> sceneLabel])"
  by (simp add: deduplicateElement_def placedElement_eq sceneView_resolved keyOf_def)

lemma check_returns:
  "\<exists>ret te' w' cache'.
     checkReadyForPlacement dedup w te tile off mv cache maxD lf = Inr (ret, te', w', cache')"
  using check_result[where dedup=dedup and w=w and te=te and tile=tile and off=off and mv=mv
      and cache=cache and maxD=maxD and lf=lf]
  by (cases "checkReadyForPlacement dedup w te tile off mv cache maxD lf")
     (auto simp: resultOf_def)

lemma check_reaches_iff:
  "resultOf (checkReadyForPlacement dedup w te tile off mv cache maxD lf)
     \<in> {Some Ok, Some TooFar, Some Duplicate} \<longleftrightarrow> reachesDistanceCheck mv te"
  by (simp add: check_result)

lemma check_vector_at:
  "map_option (\<lambda>w'. vectors w' r)
     (worldOf (checkReadyForPlacement dedup w te tile off mv cache maxD lf)) =
   Some (if reachesDistanceCheck mv te
            \<and> r = placedCenter w (resolved mv te) then shiftedTileCenter w tile off
         else vectors w r)"
proof -
  obtain ret te' w' cache' where
    c: "checkReadyForPlacement dedup w te tile off mv cache maxD lf = Inr (ret, te', w', cache')"
    using check_returns[where dedup=dedup and w=w and te=te and tile=tile and off=off
        and mv=mv and cache=cache and maxD=maxD and lf=lf] by blast
  have "vectors w' =
      (if reachesDistanceCheck mv te then vectors (placedWorld w te tile off mv) else vectors w)"
    using check_vectors[where dedup=dedup and w=w and te=te and tile=tile and off=off and mv=mv
      and cache=cache and maxD=maxD and lf=lf] c
    by (simp add: worldOf_def)
  with c show ?thesis
    by (simp add: worldOf_def placedWorld_vectors)
qed

lemma scene_vectors:
  "vectors sceneWorld 3 = \<lparr>x3 = 0, y3 = 0, z3 = 1\<rparr>" "center sceneTile = Suc 0"
  "vectors sceneWorld (Suc 0) = \<lparr>x3 = 0, y3 = 0, z3 = 1\<rparr>"
  by (simp_all add: sceneWorld_def sceneTile_def)

lemma aliasedLabel_reaches: "reachesDistanceCheck sceneView aliasedLabel"
  by (simp add: reachesDistanceCheck_def sceneView_resolved)
     (simp add: aliasedLabel_def sceneLabel_def sceneView_def)

lemma aliasedLabel_center: "placedCenter sceneWorld aliasedLabel = Suc 0"
  by (simp add: placedCenter_def aliasedLabel_def)

lemma sceneLabel_hidden: "\<not> reachesDistanceCheck hidingView sceneLabel"
  by (simp add: reachesDistanceCheck_def hidingView_resolved)

section \<open>Properties of the deduplication\<close>

























section \<open>Properties of the tile coordinates\<close>

lemma create_extents: "extents (createWorldTileTransformationCookie K e d) = e"
  by (simp add: createWorldTileTransformationCookie_def Let_def)

text \<open>The cookie that a second call reads is the one the first call read.\<close>

lemma cookieInEffect_again:
  "cookieInEffect K e (fst (cookieInEffect K e d)) = cookieInEffect K e d"
  by (auto simp: cookieInEffect_def create_extents split: option.splits)

lemma sin_gt_minus_1:
  assumes "- (pi / 2) < a" "a < pi / 2"
  shows "- 1 < sin a"
  using sin_monotone_2pi[of "- (pi / 2)" a] assms by simp

lemma tan_plus_sec_positive:
  assumes "- (pi / 2) < a" "a < pi / 2"
  shows "0 < tan a + 1 / cos a"
proof -
  have c: "0 < cos a" using assms by (rule cos_gt_zero_pi)
  have "tan a + 1 / cos a = (sin a + 1) / cos a"
    by (simp add: tan_def add_divide_distrib)
  also have "0 < (sin a + 1) / cos a"
    using c sin_gt_minus_1[OF assms] by simp
  finally show ?thesis .
qed

lemma latitude_angle:
  assumes "- 90 < (n :: real)" "n < 90"
  shows "- (pi / 2) < n * pi / 180" "n * pi / 180 < pi / 2"
proof -
  have "(- 90) * pi < n * pi" "n * pi < 90 * pi"
    using assms pi_gt_zero by (simp_all only: mult_less_cancel_right_pos)
  then show "- (pi / 2) < n * pi / 180" "n * pi / 180 < pi / 2"
    by simp_all
qed

lemma lat2tile_finite:
  assumes "- 90 < n" "n < 90" and "func = Math_floor \<or> func = Math_round"
  shows "isFinite (lat2tile n (Fin z) func)"
proof -
  have c: "cos (n * pi / 180) \<noteq> 0"
    using cos_gt_zero_pi[OF latitude_angle[OF assms(1,2)]] by simp
  have p: "0 < tan (n * pi / 180) + 1 / cos (n * pi / 180)"
    using tan_plus_sec_positive[OF latitude_angle[OF assms(1,2)]] .
  from assms(3) show ?thesis
    using c p by (auto simp: lat2tile_def Math_tan_def Math_cos_def jsub_def isFinite_def)
qed

lemma create_usable:
  assumes "0 < e" "- 90 < geoBoxNorth d" "geoBoxNorth d < 90"
  shows "usableCookie (createWorldTileTransformationCookie K e d)"
proof -
  have "isFinite (lat2tile (geoBoxNorth d) (Fin (tileKeyLevel d + log 2 e))
      (if adapterId d = VTJsonDataAdapterId K then Math_round else Math_floor))"
    by (rule lat2tile_finite[OF assms(2,3)]) simp
  then show ?thesis
    using assms(1)
    by (simp add: usableCookie_def createWorldTileTransformationCookie_def Let_def isFinite_def)
qed

lemma cookieInEffect_usable:
  assumes "0 < e" "- 90 < geoBoxNorth d" "geoBoxNorth d < 90" "cachedCookieUsable e d"
  shows "usableCookie (snd (cookieInEffect K e d))"
  using assms create_usable[OF assms(1-3), of K]
  by (auto simp: cookieInEffect_def cachedCookieUsable_def split: option.splits)

text \<open>With a usable cookie the two maps are affine maps of reals.\<close>

lemma usableCookieE:
  assumes "usableCookie c"
  obtains t l s where "top' c = Fin t" "left c = Fin l" "scale c = Fin s" "s \<noteq> 0"
  using assms
  by (cases "top' c"; cases "left c"; cases "scale c") (auto simp: usableCookie_def isFinite_def)

lemma tileWorldTile_usable:
  assumes "usableCookie (snd (cookieInEffect K e d))" and "EQUATORIAL_CIRCUMFERENCE K \<noteq> 0"
  shows "tileWorldTile K e d \<lparr>x2 = Fin a, y2 = Fin b\<rparr> flipY = \<lparr>x2 = Fin a, y2 = Fin b\<rparr>"
proof -
  obtain d1 c where dc: "cookieInEffect K e d = (d1, c)"
    by (cases "cookieInEffect K e d")
  with cookieInEffect_again[of K e d] have again: "cookieInEffect K e d1 = (d1, c)" by simp
  from assms(1) dc obtain t l s where
    c: "top' c = Fin t" "left c = Fin l" "scale c = Fin s" "s \<noteq> 0"
    by (auto elim: usableCookieE)
  show ?thesis
    using assms(2) c
    by (simp add: tileWorldTile_def tile2world_def world2tile_def dc again jsub_def)
qed

lemma worldTileWorld_usable:
  assumes "usableCookie (snd (cookieInEffect K e d))" and "EQUATORIAL_CIRCUMFERENCE K \<noteq> 0"
  shows "worldTileWorld K e d \<lparr>x2 = Fin a, y2 = Fin b\<rparr> flipY = \<lparr>x2 = Fin a, y2 = Fin b\<rparr>"
proof -
  obtain d1 c where dc: "cookieInEffect K e d = (d1, c)"
    by (cases "cookieInEffect K e d")
  with cookieInEffect_again[of K e d] have again: "cookieInEffect K e d1 = (d1, c)" by simp
  from assms(1) dc obtain t l s where
    c: "top' c = Fin t" "left c = Fin l" "scale c = Fin s" "s \<noteq> 0"
    by (auto elim: usableCookieE)
  show ?thesis
    using assms(2) c
    by (simp add: worldTileWorld_def tile2world_def world2tile_def dc again jsub_def)
qed

lemma worldTileInfo_fields:
  "geoBoxNorth worldTileInfo = 0" "worldTileProjectionCookie worldTileInfo = None"
  "geoBoxWest worldTileInfo = - 180" "tileKeyLevel worldTileInfo = 1"
  by (simp_all add: worldTileInfo_def)

lemma omvConstants_positive: "0 < EQUATORIAL_CIRCUMFERENCE omvConstants"
  by (simp add: omvConstants_def)

lemma create_zero_extents:
  "scale (createWorldTileTransformationCookie K 0 d) = Fin 0"
  "left (createWorldTileTransformationCookie K 0 d) = Fin 0"
  by (simp_all add: createWorldTileTransformationCookie_def Let_def)

lemma tile2world_x:
  "x2 (snd (tile2world K e d p flipY)) =
     jmul (jdiv (jadd (left (snd (cookieInEffect K e d))) (x2 p))
                (scale (snd (cookieInEffect K e d))))
          (Fin (EQUATORIAL_CIRCUMFERENCE K))"
  by (cases "cookieInEffect K e d") (simp add: tile2world_def Let_def)

lemma world2tile_x:
  "x2 (snd (world2tile K e d p flipY)) =
     jsub (jmul (jdiv (x2 p) (Fin (EQUATORIAL_CIRCUMFERENCE K)))
                (scale (snd (cookieInEffect K e d))))
          (left (snd (cookieInEffect K e d)))"
  by (cases "cookieInEffect K e d") (simp add: world2tile_def Let_def)

lemma tile2world_info:
  "fst (tile2world K e d p flipY) = fst (cookieInEffect K e d)"
  "fst (world2tile K e d p flipY) = fst (cookieInEffect K e d)"
  by (cases "cookieInEffect K e d", simp add: tile2world_def Let_def)
     (cases "cookieInEffect K e d", simp add: world2tile_def Let_def)

lemma tileWorldTile_x:
  "x2 (tileWorldTile K e d p flipY) =
     jsub (jmul (jdiv (x2 (snd (tile2world K e d p flipY))) (Fin (EQUATORIAL_CIRCUMFERENCE K)))
                (scale (snd (cookieInEffect K e d))))
          (left (snd (cookieInEffect K e d)))"
  using tile2world_info(1)[of K e d p flipY]
  by (cases "tile2world K e d p flipY") (simp add: tileWorldTile_def world2tile_x cookieInEffect_again)

lemma worldTileWorld_x:
  "x2 (worldTileWorld K e d p flipY) =
     jmul (jdiv (jadd (left (snd (cookieInEffect K e d))) (x2 (snd (world2tile K e d p flipY))))
                (scale (snd (cookieInEffect K e d))))
          (Fin (EQUATORIAL_CIRCUMFERENCE K))"
  using tile2world_info(2)[of K e d p flipY]
  by (cases "world2tile K e d p flipY") (simp add: worldTileWorld_def tile2world_x cookieInEffect_again)

lemma worldTileInfo_zero_extents:
  "scale (snd (cookieInEffect K 0 worldTileInfo)) = Fin 0"
  "left (snd (cookieInEffect K 0 worldTileInfo)) = Fin 0"
  by (simp_all add: cookieInEffect_def worldTileInfo_fields create_zero_extents)

section \<open>Properties of the fade state machine\<close>

lemma clampOpacity_range: "0 \<le> clampOpacity v" "clampOpacity v \<le> 1"
  by (simp_all add: clampOpacity_def)

lemma clampOpacity_high: "1 \<le> v \<Longrightarrow> clampOpacity v = 1"
  by (simp add: clampOpacity_def)

lemma clampOpacity_low: "v \<le> 0 \<Longrightarrow> clampOpacity v = 0"
  by (simp add: clampOpacity_def)

lemma clampOpacity_inside: "0 \<le> v \<Longrightarrow> v \<le> 1 \<Longrightarrow> clampOpacity v = v"
  by (simp add: clampOpacity_def)

lemma consistent_startFadeIn:
  "0 \<le> v \<Longrightarrow> v \<le> 1 \<Longrightarrow> consistent (startFadeIn t v)"
  by (simp add: consistent_def startFadeIn_def)

lemma consistent_startFadeOut:
  "0 \<le> v \<Longrightarrow> v \<le> 1 \<Longrightarrow> consistent (startFadeOut t v)"
  by (simp add: consistent_def startFadeOut_def)

lemma consistent_fadeIn: "consistent st \<Longrightarrow> consistent (fadeIn D t st)"
  using clampOpacity_range[of "fadeStartOpacity st + (t - fadeStartTime st) / D"]
  by (simp add: consistent_def fadeIn_def Let_def)

lemma consistent_fadeOut: "consistent st \<Longrightarrow> consistent (fadeOut D t st)"
  using clampOpacity_range[of "fadeStartOpacity st - (t - fadeStartTime st) / D"]
  by (simp add: consistent_def fadeOut_def Let_def)

lemma updateFade_ok:
  assumes "trackedConsistent tracked"
  shows "trackedConsistent (updateFade D t accepted tracked)"
proof (cases tracked)
  case None
  then show ?thesis
    by (simp add: trackedConsistent_def consistent_startFadeIn)
next
  case (Some st)
  with assms have c: "consistent st" by (simp add: trackedConsistent_def)
  then have r: "0 \<le> opacity st" "opacity st \<le> 1" by (simp_all add: consistent_def)
  show ?thesis
    using Some c r
    by (cases "fadeState st")
       (simp_all add: trackedConsistent_def consistent_startFadeIn consistent_startFadeOut
          consistent_fadeIn consistent_fadeOut)
qed

lemma placeText_ok:
  assumes "trackedConsistent tracked"
  shows "trackedConsistent (fst (placeText D t accepted tracked))"
    and "inRange (snd (placeText D t accepted tracked))"
proof -
  show "trackedConsistent (fst (placeText D t accepted tracked))"
    using assms updateFade_ok[OF assms, of D t accepted] by (simp add: placeText_def)
  show "inRange (snd (placeText D t accepted tracked))"
    using updateFade_ok[OF assms, of D t accepted]
    by (cases "updateFade D t accepted tracked")
       (auto simp: placeText_def inRange_def submittedOpacity_def trackedConsistent_def consistent_def)
qed

lemma renderFrames_inRange:
  "trackedConsistent tracked \<Longrightarrow> list_all inRange (renderFrames D tracked frames)"
proof (induction frames arbitrary: tracked)
  case Nil
  show ?case by simp
next
  case (Cons f frames)
  obtain t a where f: "f = (t, a)" by (cases f)
  from placeText_ok[OF Cons.prems, of D t a] Cons.IH[of "fst (placeText D t a tracked)"]
  show ?case by (simp add: f)
qed

lemma stateAfter_append:
  "stateAfter D tracked (fs @ gs) = stateAfter D (stateAfter D tracked fs) gs"
  by (induction fs arbitrary: tracked) auto

text \<open>Fading in from the anchor \<open>(s, v)\<close>.\<close>

lemma fadeIn_value:
  assumes "0 < D" "0 \<le> fadeStartOpacity st" "fadeStartTime st \<le> t"
  shows "opacity (fadeIn D t st) = min 1 (fadeStartOpacity st + (t - fadeStartTime st) / D)"
proof -
  have "0 \<le> (t - fadeStartTime st) / D" using assms by simp
  with assms(2) have "0 \<le> fadeStartOpacity st + (t - fadeStartTime st) / D" by linarith
  then show ?thesis
    by (simp add: fadeIn_def Let_def clampOpacity_def max_def)
qed

lemma fadeIn_anchor:
  "fadeStartTime (fadeIn D t st) = fadeStartTime st"
  "fadeStartOpacity (fadeIn D t st) = fadeStartOpacity st"
  "fadeState (fadeIn D t st) = (if opacity (fadeIn D t st) = 1 then Steady else FadingIn)"
  by (simp_all add: fadeIn_def Let_def)

lemma fadeOut_value:
  assumes "0 < D" "fadeStartOpacity st \<le> 1" "fadeStartTime st \<le> t"
  shows "opacity (fadeOut D t st) = max 0 (fadeStartOpacity st - (t - fadeStartTime st) / D)"
proof -
  have "0 \<le> (t - fadeStartTime st) / D" using assms by simp
  with assms(2) have "fadeStartOpacity st - (t - fadeStartTime st) / D \<le> 1" by linarith
  then show ?thesis
    by (simp add: fadeOut_def Let_def clampOpacity_def min_def)
qed

lemma fadeOut_anchor:
  "fadeStartTime (fadeOut D t st) = fadeStartTime st"
  "fadeStartOpacity (fadeOut D t st) = fadeStartOpacity st"
  "fadeState (fadeOut D t st) = (if opacity (fadeOut D t st) = 0 then Gone else FadingOut)"
  by (simp_all add: fadeOut_def Let_def)

lemma fadingIn_increases:
  assumes "0 < D" "consistent st" "fadeState st = FadingIn" "fadeStartTime st \<le> t1" "t1 < t2"
    "t1 \<noteq> 0" "t2 \<noteq> 0"
    and "currentFade (stateAfter D (Some st) [(t1, True)]) = FadingIn"
  shows "currentOpacity (stateAfter D (Some st) [(t1, True)])
           < currentOpacity (stateAfter D (Some st) [(t1, True), (t2, True)])"
proof -
  let ?st1 = "fadeIn D t1 st"
  have s0: "0 \<le> fadeStartOpacity st" using assms(2) by (simp add: consistent_def)
  have a1: "stateAfter D (Some st) [(t1, True)] = Some ?st1"
    using assms(3,6) by (simp add: placeText_def)
  with assms(8) have f1: "fadeState ?st1 = FadingIn" by (simp add: currentFade_def)
  then have lt: "opacity ?st1 \<noteq> 1" by (simp add: fadeIn_anchor(3) split: if_splits)
  have v1: "opacity ?st1 = min 1 (fadeStartOpacity st + (t1 - fadeStartTime st) / D)"
    using fadeIn_value[OF assms(1) s0 assms(4)] .
  have a2: "stateAfter D (Some st) [(t1, True), (t2, True)] = Some (fadeIn D t2 ?st1)"
    using assms(3,6,7) f1 by (simp add: placeText_def)
  have v2: "opacity (fadeIn D t2 ?st1)
      = min 1 (fadeStartOpacity st + (t2 - fadeStartTime st) / D)"
    using fadeIn_value[of D ?st1 t2] assms(1,4,5) s0 by (simp add: fadeIn_anchor)
  have "(t1 - fadeStartTime st) / D < (t2 - fadeStartTime st) / D"
    using assms(1,5) by (simp add: divide_strict_right_mono)
  with v1 v2 lt have "opacity ?st1 < opacity (fadeIn D t2 ?st1)"
    by (simp add: min_def split: if_splits)
  with a1 a2 show ?thesis by (simp add: currentOpacity_def)
qed

lemma fadingOut_decreases:
  assumes "0 < D" "consistent st" "fadeState st = FadingOut" "fadeStartTime st \<le> t1" "t1 < t2"
    "t1 \<noteq> 0" "t2 \<noteq> 0"
    and "currentFade (stateAfter D (Some st) [(t1, False)]) = FadingOut"
  shows "currentOpacity (stateAfter D (Some st) [(t1, False), (t2, False)])
           < currentOpacity (stateAfter D (Some st) [(t1, False)])"
proof -
  let ?st1 = "fadeOut D t1 st"
  have s0: "fadeStartOpacity st \<le> 1" using assms(2) by (simp add: consistent_def)
  have a1: "stateAfter D (Some st) [(t1, False)] = Some ?st1"
    using assms(3,6) by (simp add: placeText_def)
  with assms(8) have f1: "fadeState ?st1 = FadingOut" by (simp add: currentFade_def)
  then have lt: "opacity ?st1 \<noteq> 0" by (simp add: fadeOut_anchor(3) split: if_splits)
  have v1: "opacity ?st1 = max 0 (fadeStartOpacity st - (t1 - fadeStartTime st) / D)"
    using fadeOut_value[OF assms(1) s0 assms(4)] .
  have a2: "stateAfter D (Some st) [(t1, False), (t2, False)] = Some (fadeOut D t2 ?st1)"
    using assms(3,6,7) f1 by (simp add: placeText_def)
  have v2: "opacity (fadeOut D t2 ?st1)
      = max 0 (fadeStartOpacity st - (t2 - fadeStartTime st) / D)"
    using fadeOut_value[of D ?st1 t2] assms(1,4,5) s0 by (simp add: fadeOut_anchor)
  have "(t1 - fadeStartTime st) / D < (t2 - fadeStartTime st) / D"
    using assms(1,5) by (simp add: divide_strict_right_mono)
  with v1 v2 lt have "opacity (fadeOut D t2 ?st1) < opacity ?st1"
    by (simp add: max_def split: if_splits)
  with a1 a2 show ?thesis by (simp add: currentOpacity_def)
qed


text \<open>A run of frames in which the label is accepted throughout.\<close>

lemma held_in_step:
  assumes "consistent st" "fadeState st = FadingIn \<or> fadeState st = Steady" "t \<noteq> 0"
  shows "\<exists>st'. fst (placeText D t True (Some st)) = Some st' \<and> consistent st'
      \<and> (fadeState st' = FadingIn \<or> fadeState st' = Steady)
      \<and> fadeStartTime st' = fadeStartTime st \<and> fadeStartOpacity st' = fadeStartOpacity st"
  using assms consistent_fadeIn[OF assms(1), of D t]
  by (auto simp: placeText_def fadeIn_anchor)

lemma held_in_run:
  assumes "consistent st" "fadeState st = FadingIn \<or> fadeState st = Steady"
    "heldFrom s True frames"
  shows "\<exists>st'. stateAfter D (Some st) frames = Some st' \<and> consistent st'
      \<and> (fadeState st' = FadingIn \<or> fadeState st' = Steady)
      \<and> fadeStartTime st' = fadeStartTime st \<and> fadeStartOpacity st' = fadeStartOpacity st"
  using assms
proof (induction frames arbitrary: st)
  case Nil
  then show ?case by simp
next
  case (Cons f frames)
  obtain t a where f: "f = (t, a)" by (cases f)
  with Cons.prems(3) have t: "t \<noteq> 0" "a = True" and rest: "heldFrom s True frames"
    by (simp_all add: heldFrom_def)
  from held_in_step[OF Cons.prems(1,2) t(1), of D] obtain st1 where
    st1: "fst (placeText D t True (Some st)) = Some st1" "consistent st1"
      "fadeState st1 = FadingIn \<or> fadeState st1 = Steady"
      "fadeStartTime st1 = fadeStartTime st" "fadeStartOpacity st1 = fadeStartOpacity st"
    by blast
  from Cons.IH[OF st1(2,3) rest] st1 show ?case
    by (simp add: f t)
qed

lemma held_in_reaches_one:
  assumes "0 < D" "consistent st" "fadeState st = FadingIn \<or> fadeState st = Steady"
    "t \<noteq> 0" "fadeStartTime st + D \<le> t"
  shows "\<exists>st'. fst (placeText D t True (Some st)) = Some st'
      \<and> opacity st' = 1 \<and> fadeState st' = Steady"
proof (cases "fadeState st = Steady")
  case True
  with assms(2,4) show ?thesis
    by (simp add: placeText_def consistent_def)
next
  case False
  with assms(3) have f: "fadeState st = FadingIn" by simp
  have s0: "0 \<le> fadeStartOpacity st" using assms(2) by (simp add: consistent_def)
  have "D \<le> t - fadeStartTime st" using assms(5) by simp
  then have "1 \<le> (t - fadeStartTime st) / D" using assms(1) by (simp add: le_divide_eq)
  with s0 have "1 \<le> fadeStartOpacity st + (t - fadeStartTime st) / D" by linarith
  then have "opacity (fadeIn D t st) = 1"
    by (simp add: fadeIn_def Let_def clampOpacity_high)
  with f assms(4) show ?thesis
    by (simp add: placeText_def fadeIn_anchor)
qed

lemma held_out_step:
  assumes "consistent st" "fadeState st = FadingOut \<or> fadeState st = Gone" "t \<noteq> 0"
  shows "\<exists>st'. fst (placeText D t False (Some st)) = Some st' \<and> consistent st'
      \<and> (fadeState st' = FadingOut \<or> fadeState st' = Gone)
      \<and> fadeStartTime st' = fadeStartTime st \<and> fadeStartOpacity st' = fadeStartOpacity st"
  using assms consistent_fadeOut[OF assms(1), of D t]
  by (auto simp: placeText_def fadeOut_anchor)

lemma held_out_run:
  assumes "consistent st" "fadeState st = FadingOut \<or> fadeState st = Gone"
    "heldFrom s False frames"
  shows "\<exists>st'. stateAfter D (Some st) frames = Some st' \<and> consistent st'
      \<and> (fadeState st' = FadingOut \<or> fadeState st' = Gone)
      \<and> fadeStartTime st' = fadeStartTime st \<and> fadeStartOpacity st' = fadeStartOpacity st"
  using assms
proof (induction frames arbitrary: st)
  case Nil
  then show ?case by simp
next
  case (Cons f frames)
  obtain t a where f: "f = (t, a)" by (cases f)
  with Cons.prems(3) have t: "t \<noteq> 0" "a = False" and rest: "heldFrom s False frames"
    by (simp_all add: heldFrom_def)
  from held_out_step[OF Cons.prems(1,2) t(1), of D] obtain st1 where
    st1: "fst (placeText D t False (Some st)) = Some st1" "consistent st1"
      "fadeState st1 = FadingOut \<or> fadeState st1 = Gone"
      "fadeStartTime st1 = fadeStartTime st" "fadeStartOpacity st1 = fadeStartOpacity st"
    by blast
  from Cons.IH[OF st1(2,3) rest] st1 show ?case
    by (simp add: f t)
qed

lemma held_out_reaches_zero:
  assumes "0 < D" "consistent st" "fadeState st = FadingOut \<or> fadeState st = Gone"
    "t \<noteq> 0" "fadeStartTime st + D \<le> t"
  shows "\<exists>st'. fst (placeText D t False (Some st)) = Some st'
      \<and> opacity st' = 0 \<and> fadeState st' = Gone"
proof (cases "fadeState st = Gone")
  case True
  with assms(2,4) show ?thesis
    by (simp add: placeText_def consistent_def)
next
  case False
  with assms(3) have f: "fadeState st = FadingOut" by simp
  have s0: "fadeStartOpacity st \<le> 1" using assms(2) by (simp add: consistent_def)
  have "D \<le> t - fadeStartTime st" using assms(5) by simp
  then have "1 \<le> (t - fadeStartTime st) / D" using assms(1) by (simp add: le_divide_eq)
  with s0 have "fadeStartOpacity st - (t - fadeStartTime st) / D \<le> 0" by linarith
  then have "opacity (fadeOut D t st) = 0"
    by (simp add: fadeOut_def Let_def clampOpacity_low)
  with f assms(4) show ?thesis
    by (simp add: placeText_def fadeOut_anchor)
qed

lemma firstSighting:
  "consistent (startFadeIn 1 0)" "fadeState (startFadeIn 1 0) = FadingIn"
  "fadeStartTime (startFadeIn 1 0) = 1"
  by (simp_all add: consistent_startFadeIn) (simp_all add: startFadeIn_def)

lemma firstSighting_quarter:
  "currentFade (stateAfter 800 (Some (startFadeIn 1 0)) [(201, True)]) = FadingIn"
  by (simp add: placeText_def currentFade_def firstSighting fadeIn_def Let_def clampOpacity_def)
     (simp add: startFadeIn_def)

lemma sum_squares_zero:
  "sqrt (a * a + b * b + c * c) = 0 \<longleftrightarrow> a = 0 \<and> b = 0 \<and> (c :: real) = 0"
proof -
  have "0 \<le> a * a" "0 \<le> b * b" "0 \<le> c * c" by simp_all
  then have "a * a + b * b + c * c = 0 \<longleftrightarrow> a = 0 \<and> b = 0 \<and> c = 0"
    by (auto simp: add_nonneg_eq_0_iff)
  moreover have "0 \<le> a * a + b * b + c * c" by simp
  ultimately show ?thesis by simp
qed

lemma normalized_dot:
  "Vector3_dot (Vector3_normalize p) d =
     (if sqrt ((x3 p)\<^sup>2 + (y3 p)\<^sup>2 + (z3 p)\<^sup>2) = 0 then 0
      else (x3 p * x3 d + y3 p * y3 d + z3 p * z3 d)
             / sqrt ((x3 p)\<^sup>2 + (y3 p)\<^sup>2 + (z3 p)\<^sup>2))"
proof (cases "sqrt (x3 p * x3 p + y3 p * y3 p + z3 p * z3 p) = 0")
  case True
  then have "x3 p = 0 \<and> y3 p = 0 \<and> z3 p = 0" by (simp only: sum_squares_zero)
  then show ?thesis
    by (simp add: Vector3_dot_def Vector3_normalize_def Vector3_length_def
        Vector3_divideScalar_def Vector3_multiplyScalar_def)
next
  case False
  then show ?thesis
    by (simp add: Vector3_dot_def Vector3_normalize_def Vector3_length_def
        Vector3_divideScalar_def Vector3_multiplyScalar_def power2_eq_square
        add_divide_distrib)
qed

lemma facesCamera_explicit:
  "facesCamera w te c mv \<longleftrightarrow>
     (let p = offsetByTileCenter w (position te) c; d = cameraWorldDirection mv;
          n = sqrt ((x3 p)\<^sup>2 + (y3 p)\<^sup>2 + (z3 p)\<^sup>2)
      in n \<noteq> 0 \<and> (x3 p * x3 d + y3 p * y3 d + z3 p * z3 d) / n < - 0.6)"
  by (simp add: facesCamera_def normalized_dot Let_def)

lemma candidateFacesCamera_explicit:
  "candidateFacesCamera w te tile off mv \<longleftrightarrow>
     (let p = candidateWorldPosition w te tile off mv; d = cameraWorldDirection mv;
          n = sqrt ((x3 p)\<^sup>2 + (y3 p)\<^sup>2 + (z3 p)\<^sup>2)
      in n \<noteq> 0 \<and> (x3 p * x3 d + y3 p * y3 d + z3 p * z3 d) / n < - 0.6)"
  by (simp only: candidateFacesCamera_def candidateWorldPosition_def facesCamera_explicit)

lemma tiltedView_resolved: "resolved tiltedView te = te" "poiReady tiltedView te"
  by (simp_all add: resolved_def poiReady_def tiltedView_def globeView_def sceneView_def)

lemma deepLabel_reaches:
  "reachesDistanceCheck globeView deepLabel" "reachesDistanceCheck tiltedView deepLabel"
  by (simp_all add: reachesDistanceCheck_def globeView_resolved tiltedView_resolved)
     (simp_all add: deepLabel_def sceneLabel_def tiltedView_def globeView_def sceneView_def)

lemma deepLabel_center: "placedCenter sceneWorld deepLabel = 3"
  by (simp add: placedCenter_def deepLabel_def sceneLabel_def)

lemma deepLabel_placed:
  "position (deepLabel\<lparr>tileCenter := Some 3\<rparr>) = 4"
  "\<not> isPath (deepLabel\<lparr>tileCenter := Some 3\<rparr>)"
  by (simp_all add: deepLabel_def isPath_def)

lemma deepLabel_position:
  "candidateWorldPosition sceneWorld deepLabel sceneTile 0 globeView = \<lparr>x3 = 0, y3 = 0, z3 = 2\<rparr>"
  "candidateWorldPosition sceneWorld deepLabel sceneTile 0 tiltedView = \<lparr>x3 = 0, y3 = 0, z3 = 2\<rparr>"
  by (simp_all add: candidateWorldPosition_def placedElement_eq globeView_resolved
      tiltedView_resolved deepLabel_center deepLabel_placed offsetByTileCenter_def
      placedWorld_vectors scene_shifted)
     (simp_all add: sceneWorld_def)

lemma views_fields:
  "worldCenter globeView = 0" "worldCenter tiltedView = 0"
  "cameraWorldDirection globeView = \<lparr>x3 = 0, y3 = 0, z3 = - 1\<rparr>"
  "cameraWorldDirection tiltedView = \<lparr>x3 = 0, y3 = 4 / 5, z3 = - (3 / 5)\<rparr>"
  "projectionType globeView = Spherical" "projectionType tiltedView = Spherical"
  by (simp_all add: tiltedView_def globeView_def sceneView_def)

lemma deepLabel_distance:
  "computedViewDistance sceneWorld deepLabel sceneTile 0 globeView = 2"
  "computedViewDistance sceneWorld deepLabel sceneTile 0 tiltedView = 2"
proof -
  have o: "vectors (placedWorld sceneWorld deepLabel sceneTile 0 globeView) 0 = origin"
    "vectors (placedWorld sceneWorld deepLabel sceneTile 0 tiltedView) 0 = origin"
    by (simp_all add: placedWorld_vectors globeView_resolved tiltedView_resolved
        deepLabel_center)
       (simp_all add: sceneWorld_def)
  have p: "offsetByTileCenter (placedWorld sceneWorld deepLabel sceneTile 0 globeView) 4 3
      = \<lparr>x3 = 0, y3 = 0, z3 = 2\<rparr>"
    "offsetByTileCenter (placedWorld sceneWorld deepLabel sceneTile 0 tiltedView) 4 3
      = \<lparr>x3 = 0, y3 = 0, z3 = 2\<rparr>"
    using deepLabel_position
    by (simp_all add: candidateWorldPosition_def placedElement_eq globeView_resolved
        tiltedView_resolved deepLabel_center deepLabel_placed)
  show "computedViewDistance sceneWorld deepLabel sceneTile 0 globeView = 2"
    by (simp add: computedViewDistance_def placedElement_eq globeView_resolved
        deepLabel_center viewDistanceSpec_def deepLabel_placed views_fields o p)
       (simp add: euclideanDistance_def origin_def)
  show "computedViewDistance sceneWorld deepLabel sceneTile 0 tiltedView = 2"
    by (simp add: computedViewDistance_def placedElement_eq tiltedView_resolved
        deepLabel_center viewDistanceSpec_def deepLabel_placed views_fields o p)
       (simp add: euclideanDistance_def origin_def)
qed

section \<open>Properties of the candidate loop\<close>



















section \<open>The claims about the placement pre-filter\<close>

text \<open>
  C1. \<open>checkReadyForPlacement\<close> applies its rejection tests in the order of the spec, for
  every candidate, view, store, cache and threshold, and it always returns: a candidate
  whose visibility flag is false is \<open>Invisible\<close>; otherwise, if POI resolution is not
  ready, it is \<open>NotReady\<close>; otherwise, if after POI resolution the flag is false or the zoom
  level is outside \<open>[minZoomLevel, maxZoomLevel]\<close>, it is \<open>Invisible\<close>; only then the
  distance check (\<open>TooFar\<close>) and the deduplication (\<open>Duplicate\<close>) decide, and with no
  rejection the result is \<open>Ok\<close>. The cache shows that the deduplication runs only after
  all the other tests have passed: otherwise the cache is left as it was.
\<close>

theorem checkReadyForPlacement_order:
  "resultOf (checkReadyForPlacement dedup w te tile off mv cache maxD lf) =
     Some (if \<not> visible te then Invisible
           else if \<not> poiReady mv te then NotReady
           else if \<not> visible (resolved mv te)
                   \<or> zoomLevel mv < minZoomLevel (resolved mv te)
                   \<or> maxZoomLevel (resolved mv te) < zoomLevel mv then Invisible
           else if \<not> passesDistanceCheck w te tile off mv maxD then TooFar
           else if \<not> fst (dedup (placedElement w te tile off mv) lf cache) then Duplicate
           else Ok)
   \<and> cacheOf (checkReadyForPlacement dedup w te tile off mv cache maxD lf) =
     Some (if visible te \<and> poiReady mv te \<and> visible (resolved mv te)
              \<and> minZoomLevel (resolved mv te) \<le> zoomLevel mv
              \<and> zoomLevel mv \<le> maxZoomLevel (resolved mv te)
              \<and> passesDistanceCheck w te tile off mv maxD
           then snd (dedup (placedElement w te tile off mv) lf cache) else cache)"
  by (auto simp: check_result check_cache reachesDistanceCheck_def)

theorem checkReadyForPlacement_order_witness:
  "resultOf (checkReadyForPlacement deduplicateElement sceneWorld sceneLabel sceneTile 0
       sceneView Map.empty (Some 10000) None) = Some Ok
   \<and> resultOf (checkReadyForPlacement deduplicateElement sceneWorld sceneLabel sceneTile 0
       sceneView Map.empty (Some (1 / 2)) None) = Some TooFar
   \<and> resultOf (checkReadyForPlacement deduplicateElement sceneWorld
       (sceneLabel\<lparr>visible := False\<rparr>) sceneTile 0
       sceneView Map.empty (Some (1 / 2)) None) = Some Invisible"
  using checkReadyForPlacement_order[where dedup=deduplicateElement and w=sceneWorld
      and te=sceneLabel and tile=sceneTile and off=0 and mv=sceneView and cache=Map.empty
      and maxD="Some 10000" and lf=None]
    checkReadyForPlacement_order[where dedup=deduplicateElement and w=sceneWorld
      and te=sceneLabel and tile=sceneTile and off=0 and mv=sceneView and cache=Map.empty
      and maxD="Some (1 / 2)" and lf=None]
    checkReadyForPlacement_order[where dedup=deduplicateElement and w=sceneWorld
      and te="sceneLabel\<lparr>visible := False\<rparr>" and tile=sceneTile and off=0 and mv=sceneView
      and cache=Map.empty and maxD="Some (1 / 2)" and lf=None]
  by (simp add: sceneView_resolved sceneLabel_fields scene_passes scene_dedup)

text \<open>
  C3. \<open>computeViewDistance\<close>, for a candidate that holds a tile centre \<open>c\<close>: for a path
  (\<open>points\<close> is an array of more than one point) it returns the minimum of the distances
  from the reference position to the first and to the last point of the path, each
  offset by the tile centre; for every other candidate it returns the distance from the
  reference position to the candidate's position offset by the tile centre.
\<close>

theorem computeViewDistance_min_or_direct:
  assumes "tileCenter te = Some c"
  shows "map_sum id fst (computeViewDistance w refPosition te) =
     Inr (if isPath te then
            min (euclideanDistance (vectors w refPosition)
                   (offsetByTileCenter w (hd (pathPoints te)) c))
                (euclideanDistance (vectors w refPosition)
                   (offsetByTileCenter w (last (pathPoints te)) c))
          else
            euclideanDistance (vectors w refPosition)
              (offsetByTileCenter w (position te) c))"
proof -
  obtain t where "computeViewDistance w refPosition te =
           Inr (viewDistanceSpec w refPosition te c, w\<lparr>tempTextElementPosition := t\<rparr>)"
    using computeViewDistance_value[OF assms] by blast
  then show ?thesis
    by (simp add: viewDistanceSpec_def)
qed

theorem computeViewDistance_min_or_direct_witness:
  "map_sum id fst (computeViewDistance sceneWorld 0 pathLabel) = Inr 1
   \<and> map_sum id fst (computeViewDistance sceneWorld 0 sceneLabel) = Inr 1"
  using computeViewDistance_min_or_direct[where te=pathLabel and c=3 and w=sceneWorld
      and refPosition=0]
    computeViewDistance_min_or_direct[where te=sceneLabel and c=3 and w=sceneWorld
      and refPosition=0]
  by (simp add: pathLabel_fields sceneWorld_offsets)
     (simp add: euclideanDistance_def origin_def)

text \<open>
  C4. \<open>checkReadyForPlacement\<close> returns \<open>TooFar\<close> if and only if the candidate passes the
  earlier tests, a threshold \<open>maxViewDistance\<close> is supplied and the distance and facing
  check fails. Under the planar projection that is exactly when the computed view
  distance is strictly greater than the threshold, so a distance equal to the threshold
  is not rejected. With no threshold the result is never \<open>TooFar\<close>.
\<close>

theorem tooFar_iff:
  "(resultOf (checkReadyForPlacement dedup w te tile off mv cache maxD lf) = Some TooFar
      \<longleftrightarrow> reachesDistanceCheck mv te
          \<and> (\<exists>m. maxD = Some m
                \<and> \<not> (computedViewDistance w te tile off mv \<le> m
                      \<and> (projectionType mv = Planar
                           \<or> candidateFacesCamera w te tile off mv))))
   \<and> (projectionType mv = Planar \<longrightarrow>
        (resultOf (checkReadyForPlacement dedup w te tile off mv cache maxD lf) = Some TooFar
           \<longleftrightarrow> reachesDistanceCheck mv te
               \<and> (\<exists>m. maxD = Some m \<and> m < computedViewDistance w te tile off mv)))
   \<and> (maxD = None \<longrightarrow>
        resultOf (checkReadyForPlacement dedup w te tile off mv cache maxD lf) \<noteq> Some TooFar)"
  by (cases maxD) (auto simp: check_result passesDistanceCheck_def)

theorem tooFar_iff_witness:
  "resultOf (checkReadyForPlacement deduplicateElement sceneWorld sceneLabel sceneTile 0
       sceneView Map.empty (Some (1 / 2)) None) = Some TooFar
   \<and> resultOf (checkReadyForPlacement deduplicateElement sceneWorld sceneLabel sceneTile 0
       sceneView Map.empty (Some 1) None) \<noteq> Some TooFar
   \<and> resultOf (checkReadyForPlacement deduplicateElement sceneWorld sceneLabel sceneTile 0
       sceneView Map.empty None None) \<noteq> Some TooFar"
proof -
  have r: "reachesDistanceCheck sceneView sceneLabel"
    by (rule sceneLabel_reaches)
  have p: "projectionType sceneView = Planar"
    by (simp add: sceneView_def)
  have far: "\<exists>m. Some (1 / 2 :: real) = Some m
      \<and> m < computedViewDistance sceneWorld sceneLabel sceneTile 0 sceneView"
    by (rule exI[of _ "1 / 2"]) (simp add: scene_distance)
  have near: "\<not> (\<exists>m. Some (1 :: real) = Some m
      \<and> m < computedViewDistance sceneWorld sceneLabel sceneTile 0 sceneView)"
    by (simp add: scene_distance)
  have a: "resultOf (checkReadyForPlacement deduplicateElement sceneWorld sceneLabel
       sceneTile 0 sceneView Map.empty (Some (1 / 2)) None) = Some TooFar"
    using tooFar_iff[where dedup=deduplicateElement and w=sceneWorld
      and te=sceneLabel and tile=sceneTile and off=0 and mv=sceneView and cache=Map.empty
      and maxD="Some (1 / 2)" and lf=None] r p far by blast
  have b: "resultOf (checkReadyForPlacement deduplicateElement sceneWorld sceneLabel
       sceneTile 0 sceneView Map.empty (Some 1) None) \<noteq> Some TooFar"
    using tooFar_iff[where dedup=deduplicateElement and w=sceneWorld
      and te=sceneLabel and tile=sceneTile and off=0 and mv=sceneView and cache=Map.empty
      and maxD="Some 1" and lf=None] r p near by blast
  have c: "resultOf (checkReadyForPlacement deduplicateElement sceneWorld sceneLabel
       sceneTile 0 sceneView Map.empty None None) \<noteq> Some TooFar"
    using tooFar_iff[where dedup=deduplicateElement and w=sceneWorld
      and te=sceneLabel and tile=sceneTile and off=0 and mv=sceneView and cache=Map.empty
      and maxD=None and lf=None] by blast
  from a b c show ?thesis by blast
qed

text \<open>
  C5. Under the spherical projection and with a threshold \<open>m\<close>, a candidate that passes
  the earlier tests is not \<open>TooFar\<close> exactly when its view distance is at most \<open>m\<close> and the
  dot product of its normalised world position with the camera's forward direction is
  below \<open>- 0.6\<close>; when either fails the result is \<open>TooFar\<close>. The world position \<open>p\<close> is the
  position plus the tile centre; normalised, it is \<open>p\<close> divided by its Euclidean length
  \<open>n\<close>, so the dot product with the direction \<open>d\<close> is \<open>(p \<cdot> d) / n\<close>. A world position of
  length zero stays the zero vector, its dot product is 0, and the candidate is \<open>TooFar\<close>.
\<close>

theorem spherical_distance_check:
  assumes "reachesDistanceCheck mv te" and "projectionType mv = Spherical"
    and "maxD = Some m"
  shows "resultOf (checkReadyForPlacement dedup w te tile off mv cache maxD lf) \<noteq> Some TooFar
     \<longleftrightarrow> computedViewDistance w te tile off mv \<le> m
         \<and> (let p = candidateWorldPosition w te tile off mv; d = cameraWorldDirection mv;
                 n = sqrt ((x3 p)\<^sup>2 + (y3 p)\<^sup>2 + (z3 p)\<^sup>2)
             in n \<noteq> 0 \<and> (x3 p * x3 d + y3 p * y3 d + z3 p * z3 d) / n < - 0.6)"
proof -
  have "resultOf (checkReadyForPlacement dedup w te tile off mv cache maxD lf) \<noteq> Some TooFar
     \<longleftrightarrow> computedViewDistance w te tile off mv \<le> m
         \<and> candidateFacesCamera w te tile off mv"
    using assms by (auto simp: check_result passesDistanceCheck_def)
  then show ?thesis
    by (simp only: candidateFacesCamera_explicit)
qed

theorem spherical_distance_check_witness:
  "resultOf (checkReadyForPlacement deduplicateElement sceneWorld deepLabel sceneTile 0
       globeView Map.empty (Some 10000) None) \<noteq> Some TooFar
   \<and> resultOf (checkReadyForPlacement deduplicateElement sceneWorld deepLabel sceneTile 0
       tiltedView Map.empty (Some 10000) None) = Some TooFar
   \<and> resultOf (checkReadyForPlacement deduplicateElement sceneWorld deepLabel sceneTile 0
       globeView Map.empty (Some 1) None) = Some TooFar"
proof -
  have a: "resultOf (checkReadyForPlacement deduplicateElement sceneWorld deepLabel sceneTile 0
       globeView Map.empty (Some 10000) None) \<noteq> Some TooFar"
    using spherical_distance_check[OF deepLabel_reaches(1) views_fields(5),
        where maxD="Some 10000" and m=10000
        and dedup=deduplicateElement and w=sceneWorld and tile=sceneTile and off=0
        and cache=Map.empty and lf=None]
    by (simp add: deepLabel_distance deepLabel_position views_fields)
  have b: "resultOf (checkReadyForPlacement deduplicateElement sceneWorld deepLabel sceneTile 0
       tiltedView Map.empty (Some 10000) None) = Some TooFar"
    using spherical_distance_check[OF deepLabel_reaches(2) views_fields(6),
        where maxD="Some 10000" and m=10000
        and dedup=deduplicateElement and w=sceneWorld and tile=sceneTile and off=0
        and cache=Map.empty and lf=None]
    by (simp add: deepLabel_distance deepLabel_position views_fields)
  have c: "resultOf (checkReadyForPlacement deduplicateElement sceneWorld deepLabel sceneTile 0
       globeView Map.empty (Some 1) None) = Some TooFar"
    using spherical_distance_check[OF deepLabel_reaches(1) views_fields(5),
        where maxD="Some 1" and m=1
        and dedup=deduplicateElement and w=sceneWorld and tile=sceneTile and off=0
        and cache=Map.empty and lf=None]
    by (simp add: deepLabel_distance deepLabel_position views_fields)
  from a b c show ?thesis by blast
qed

text \<open>
  C9. \<open>checkReadyForPlacement\<close> always returns a pair whose view distance is defined if and
  only if the result is \<open>Ok\<close>, and then it is the computed view distance; on \<open>Duplicate\<close>,
  \<open>NotReady\<close>, \<open>Invisible\<close> and \<open>TooFar\<close> it is undefined.
\<close>

theorem viewDistance_defined_iff_Ok:
  "(\<exists>r d. resultOf (checkReadyForPlacement dedup w te tile off mv cache maxD lf) = Some r
          \<and> viewDistanceOf (checkReadyForPlacement dedup w te tile off mv cache maxD lf)
              = Some d
          \<and> (d \<noteq> None \<longleftrightarrow> r = Ok)
          \<and> d = (if r = Ok then Some (computedViewDistance w te tile off mv) else None))"
  by (simp add: check_result check_viewDistance)


theorem viewDistance_defined_iff_Ok_witness:
  "viewDistanceOf (checkReadyForPlacement deduplicateElement sceneWorld sceneLabel sceneTile 0
       sceneView Map.empty None None) = Some (Some 1)
   \<and> resultOf (checkReadyForPlacement deduplicateElement sceneWorld sceneLabel sceneTile 0
       sceneView Map.empty None None) = Some Ok
   \<and> viewDistanceOf (checkReadyForPlacement deduplicateElement sceneWorld sceneLabel sceneTile 0
       sceneView [keyOf sceneLabel \<mapsto> sceneLabel] None None) = Some None
   \<and> resultOf (checkReadyForPlacement deduplicateElement sceneWorld sceneLabel sceneTile 0
       sceneView [keyOf sceneLabel \<mapsto> sceneLabel] None None) = Some Duplicate"
proof -
  have p: "passesDistanceCheck sceneWorld sceneLabel sceneTile 0 sceneView None"
    by (simp add: passesDistanceCheck_def)
  have a: "resultOf (checkReadyForPlacement deduplicateElement sceneWorld sceneLabel sceneTile 0
       sceneView Map.empty None None) = Some Ok"
    by (simp add: check_result sceneLabel_reaches p scene_dedup)
  have b: "resultOf (checkReadyForPlacement deduplicateElement sceneWorld sceneLabel sceneTile 0
       sceneView [keyOf sceneLabel \<mapsto> sceneLabel] None None) = Some Duplicate"
    by (simp add: check_result sceneLabel_reaches p scene_dedup_taken)
  from a b
    viewDistance_defined_iff_Ok[where dedup=deduplicateElement and w=sceneWorld
      and te=sceneLabel and tile=sceneTile and off=0 and mv=sceneView and cache=Map.empty
      and maxD=None and lf=None]
    viewDistance_defined_iff_Ok[where dedup=deduplicateElement and w=sceneWorld
      and te=sceneLabel and tile=sceneTile and off=0 and mv=sceneView
      and cache="[keyOf sceneLabel \<mapsto> sceneLabel]" and maxD=None and lf=None]
  show ?thesis
    by (auto simp: scene_distance)
qed

text \<open>
  C8, as amended. \<open>checkReadyForPlacement\<close> writes one vector of the store at most, the
  candidate's tile-centre vector (a new vector when the candidate held none), and only
  when execution reaches the distance check (\<open>Ok\<close>, \<open>TooFar\<close>, \<open>Duplicate\<close>); that vector
  is then \<open>(tile.center.x + worldOffsetX, tile.center.y, tile.center.z)\<close>. The tile's
  centre vector is therefore unchanged unless the candidate holds that very vector as
  its tile centre. The only field of the candidate that \<open>checkReadyForPlacement\<close> writes
  beyond what POI resolution did is \<open>tileCenter\<close>; on \<open>Invisible\<close> and \<open>NotReady\<close> the
  candidate is as POI resolution left it (as it was, when POI resolution was not
  reached) and no vector is written.

  The claim as stated fails twice: POI resolution may hide the candidate, which then is
  \<open>Invisible\<close> and changed; and a candidate whose tile centre is the tile's own centre
  vector has \<open>set\<close> overwrite the tile's centre.
\<close>

theorem checkReadyForPlacement_writes:
  "elementOf (checkReadyForPlacement dedup w te tile off mv cache maxD lf) =
     Some (if reachesDistanceCheck mv te
           then (resolved mv te)\<lparr>tileCenter := Some (placedCenter w (resolved mv te))\<rparr>
           else if visible te then resolved mv te else te)
   \<and> map_option vectors (worldOf (checkReadyForPlacement dedup w te tile off mv cache maxD lf)) =
     Some (if reachesDistanceCheck mv te
           then (vectors w)(placedCenter w (resolved mv te) :=
                  \<lparr>x3 = x3 (vectors w (center tile)) + off, y3 = y3 (vectors w (center tile)),
                   z3 = z3 (vectors w (center tile))\<rparr>)
           else vectors w)
   \<and> (center tile \<noteq> placedCenter w (resolved mv te) \<longrightarrow>
        map_option (\<lambda>w'. vectors w' (center tile))
          (worldOf (checkReadyForPlacement dedup w te tile off mv cache maxD lf)) =
        Some (vectors w (center tile)))
   \<and> (resultOf (checkReadyForPlacement dedup w te tile off mv cache maxD lf)
          \<in> {Some Ok, Some TooFar, Some Duplicate} \<longleftrightarrow> reachesDistanceCheck mv te)"
proof -
  have 1: "elementOf (checkReadyForPlacement dedup w te tile off mv cache maxD lf) =
     Some (if reachesDistanceCheck mv te
           then (resolved mv te)\<lparr>tileCenter := Some (placedCenter w (resolved mv te))\<rparr>
           else if visible te then resolved mv te else te)"
    by (simp add: check_element placedElement_eq)
  have 2: "map_option vectors (worldOf (checkReadyForPlacement dedup w te tile off mv cache maxD lf)) =
     Some (if reachesDistanceCheck mv te
           then (vectors w)(placedCenter w (resolved mv te) :=
                  \<lparr>x3 = x3 (vectors w (center tile)) + off, y3 = y3 (vectors w (center tile)),
                   z3 = z3 (vectors w (center tile))\<rparr>)
           else vectors w)"
    by (simp add: check_vectors placedWorld_vectors shiftedTileCenter_def)
  have 3: "center tile \<noteq> placedCenter w (resolved mv te) \<longrightarrow>
        map_option (\<lambda>w'. vectors w' (center tile))
          (worldOf (checkReadyForPlacement dedup w te tile off mv cache maxD lf)) =
        Some (vectors w (center tile))"
    by (simp add: check_vector_at)
  from 1 2 3 check_reaches_iff[where dedup=dedup and w=w and te=te and tile=tile and off=off
      and mv=mv and cache=cache and maxD=maxD and lf=lf]
  show ?thesis by blast
qed

theorem checkReadyForPlacement_writes_witness:
  "elementOf (checkReadyForPlacement deduplicateElement sceneWorld sceneLabel sceneTile 5
       sceneView Map.empty None None) = Some sceneLabel
   \<and> map_option (\<lambda>w'. vectors w' (center sceneTile))
        (worldOf (checkReadyForPlacement deduplicateElement sceneWorld sceneLabel sceneTile 5
           sceneView Map.empty None None)) = Some \<lparr>x3 = 0, y3 = 0, z3 = 1\<rparr>
   \<and> resultOf (checkReadyForPlacement deduplicateElement sceneWorld sceneLabel sceneTile 5
       sceneView Map.empty None None) \<in> {Some Ok, Some TooFar, Some Duplicate}"
proof -
  have e: "sceneLabel\<lparr>tileCenter := Some 3\<rparr> = sceneLabel"
    by (simp add: sceneLabel_def)
  from checkReadyForPlacement_writes[where dedup=deduplicateElement and w=sceneWorld
      and te=sceneLabel and tile=sceneTile and off=5 and mv=sceneView and cache=Map.empty
      and maxD=None and lf=None]
  show ?thesis
    by (simp add: sceneLabel_reaches sceneView_resolved sceneLabel_center scene_vectors e)
qed

theorem checkReadyForPlacement_writes_counterexample:
  "resultOf (checkReadyForPlacement deduplicateElement sceneWorld sceneLabel sceneTile 0
       hidingView Map.empty None None) = Some Invisible
   \<and> elementOf (checkReadyForPlacement deduplicateElement sceneWorld sceneLabel sceneTile 0
       hidingView Map.empty None None) \<noteq> Some sceneLabel
   \<and> map_option (\<lambda>w'. vectors w' (center sceneTile))
        (worldOf (checkReadyForPlacement deduplicateElement sceneWorld aliasedLabel sceneTile 5
           sceneView Map.empty None None)) = Some \<lparr>x3 = 5, y3 = 0, z3 = 1\<rparr>
   \<and> vectors sceneWorld (center sceneTile) = \<lparr>x3 = 0, y3 = 0, z3 = 1\<rparr>"
proof -
  have v: "visible sceneLabel" "sceneLabel\<lparr>visible := False\<rparr> \<noteq> sceneLabel"
    by (simp_all add: sceneLabel_def)
  have a: "resultOf (checkReadyForPlacement deduplicateElement sceneWorld sceneLabel sceneTile 0
       hidingView Map.empty None None) = Some Invisible"
    by (simp add: check_result sceneLabel_hidden hidingView_resolved)
  have b: "elementOf (checkReadyForPlacement deduplicateElement sceneWorld sceneLabel sceneTile 0
       hidingView Map.empty None None) \<noteq> Some sceneLabel"
    by (simp add: check_element sceneLabel_hidden hidingView_resolved v)
  have c: "map_option (\<lambda>w'. vectors w' (center sceneTile))
        (worldOf (checkReadyForPlacement deduplicateElement sceneWorld aliasedLabel sceneTile 5
           sceneView Map.empty None None)) = Some \<lparr>x3 = 5, y3 = 0, z3 = 1\<rparr>"
    by (simp add: check_vector_at aliasedLabel_reaches sceneView_resolved aliasedLabel_center
        scene_vectors scene_shifted)
  from a b c show ?thesis
    by (simp add: scene_vectors)
qed

section \<open>The claim about deduplication\<close>




section \<open>The claim about the tile coordinates\<close>

text \<open>
  C10, as amended. Under exact arithmetic \<open>OmvUtils.tile2world\<close> and
  \<open>OmvUtils.world2tile\<close> are mutual inverses for every positive extents value, every
  decode info whose geo box has its north edge strictly between -90 and 90 degrees and
  whose cached cookie, if it has one for these extents, has real numbers and a non-zero
  scale, every flag \<open>flipY\<close> and every position \<open>p\<close> of real coordinates: \<open>world2tile\<close> applied
  with the same parameters to the result of \<open>tile2world\<close> returns \<open>p\<close>, and \<open>tile2world\<close>
  applied to the result of \<open>world2tile\<close> returns \<open>p\<close>. The circumference of the equator is
  a positive constant.

  The claim as stated fails for the extents 0: the scale of the cookie is
  \<open>Math.pow(2, level + Math.log2(0)) = 0\<close>, \<open>tile2world\<close> divides by it, and both round
  trips return \<open>NaN\<close>.
\<close>

theorem tile2world_world2tile_inverse:
  assumes "0 < e" and "- 90 < geoBoxNorth d" and "geoBoxNorth d < 90"
    and "cachedCookieUsable e d" and "0 < EQUATORIAL_CIRCUMFERENCE K"
  shows "tileWorldTile K e d \<lparr>x2 = Fin a, y2 = Fin b\<rparr> flipY = \<lparr>x2 = Fin a, y2 = Fin b\<rparr>
    \<and> worldTileWorld K e d \<lparr>x2 = Fin a, y2 = Fin b\<rparr> flipY = \<lparr>x2 = Fin a, y2 = Fin b\<rparr>"
proof -
  have u: "usableCookie (snd (cookieInEffect K e d))"
    using assms(1-4) by (rule cookieInEffect_usable)
  have r: "EQUATORIAL_CIRCUMFERENCE K \<noteq> 0"
    using assms(5) by simp
  from tileWorldTile_usable[OF u r] worldTileWorld_usable[OF u r] show ?thesis
    by simp
qed

theorem tile2world_world2tile_inverse_witness:
  "tileWorldTile omvConstants 4096 worldTileInfo \<lparr>x2 = Fin 100, y2 = Fin 200\<rparr> True
     = \<lparr>x2 = Fin 100, y2 = Fin 200\<rparr>
   \<and> worldTileWorld omvConstants 4096 worldTileInfo \<lparr>x2 = Fin 100, y2 = Fin 200\<rparr> True
     = \<lparr>x2 = Fin 100, y2 = Fin 200\<rparr>"
proof -
  have "cachedCookieUsable 4096 worldTileInfo"
    by (simp add: cachedCookieUsable_def worldTileInfo_fields)
  then show ?thesis
    using tile2world_world2tile_inverse[where e=4096 and d=worldTileInfo and K=omvConstants
        and a=100 and b=200 and flipY=True]
    by (simp add: worldTileInfo_fields omvConstants_positive)
qed

theorem tile2world_world2tile_inverse_counterexample:
  "x2 (tileWorldTile omvConstants 0 worldTileInfo \<lparr>x2 = Fin 1, y2 = Fin 1\<rparr> False) = NaN
   \<and> x2 (worldTileWorld omvConstants 0 worldTileInfo \<lparr>x2 = Fin 1, y2 = Fin 1\<rparr> False) = NaN"
  using omvConstants_positive
  by (simp add: tileWorldTile_x worldTileWorld_x tile2world_x world2tile_x
      worldTileInfo_zero_extents infinityOfSign_def jsub_def)

section \<open>The claims about fading\<close>

text \<open>
  C6. A label that is accepted in every frame, with a fade duration \<open>fadeTime > 0\<close> and
  frames at the clock values 0, 1, \<open>1 + fadeTime / 3\<close>, \<open>1 + fadeTime / 2\<close> and
  \<open>1 + fadeTime\<close>: the frame at 0 is ignored and submits nothing; the label is submitted
  with opacity 0 in the frame at 1, with strictly increasing opacities above 0 in the
  next two frames, and with opacity exactly 1 in the frame at \<open>1 + fadeTime\<close>.
\<close>

theorem fade_in_single_label:
  assumes "0 < fadeTime"
  shows "\<exists>a b. renderFrames fadeTime None
           [(0, True), (1, True), (1 + fadeTime / 3, True), (1 + fadeTime / 2, True),
            (1 + fadeTime, True)]
         = [None, Some 0, Some a, Some b, Some 1] \<and> 0 < a \<and> a < b"
proof -
  have "renderFrames fadeTime None
           [(0, True), (1, True), (1 + fadeTime / 3, True), (1 + fadeTime / 2, True),
            (1 + fadeTime, True)]
         = [None, Some 0, Some (1 / 3), Some (1 / 2), Some 1]"
    using assms
    by (simp add: placeText_def submittedOpacity_def startFadeIn_def fadeIn_def
        clampOpacity_def Let_def add_nonneg_eq_0_iff)
  moreover have "0 < (1 / 3 :: real) \<and> (1 / 3 :: real) < 1 / 2" by simp
  ultimately show ?thesis by blast
qed

theorem fade_in_single_label_witness:
  "\<exists>a b. renderFrames 800 None
           [(0, True), (1, True), (1 + 800 / 3, True), (1 + 800 / 2, True), (1 + 800, True)]
         = [None, Some 0, Some a, Some b, Some 1] \<and> 0 < a \<and> a < b"
proof -
  have "(0 :: real) < 800" by simp
  then show ?thesis by (rule fade_in_single_label)
qed

text \<open>
  C7. With a fade duration \<open>D > 0\<close>: every opacity that a run of frames submits, from any
  consistent state of a label or from none, is in \<open>[0, 1]\<close>. While a label fades in, a
  frame at a later clock value leaves a strictly greater opacity, and while it fades out
  a strictly smaller one. A label that fades in and is accepted in every frame has
  opacity exactly 1 and is steady in any frame at or after the fade-start time plus
  \<open>D\<close>; a label that fades out and is accepted in no frame has opacity exactly 0 and is
  gone in any such frame.
\<close>

theorem fade_bounded_monotone:
  assumes "0 < D"
  shows "(\<forall>tracked frames. trackedConsistent tracked \<longrightarrow>
            list_all inRange (renderFrames D tracked frames))
    \<and> (\<forall>st t1 t2. consistent st \<and> fadeState st = FadingIn \<and> fadeStartTime st \<le> t1
           \<and> t1 < t2 \<and> t1 \<noteq> 0 \<and> t2 \<noteq> 0
           \<and> currentFade (stateAfter D (Some st) [(t1, True)]) = FadingIn
         \<longrightarrow> currentOpacity (stateAfter D (Some st) [(t1, True)])
               < currentOpacity (stateAfter D (Some st) [(t1, True), (t2, True)]))
    \<and> (\<forall>st t1 t2. consistent st \<and> fadeState st = FadingOut \<and> fadeStartTime st \<le> t1
           \<and> t1 < t2 \<and> t1 \<noteq> 0 \<and> t2 \<noteq> 0
           \<and> currentFade (stateAfter D (Some st) [(t1, False)]) = FadingOut
         \<longrightarrow> currentOpacity (stateAfter D (Some st) [(t1, False), (t2, False)])
               < currentOpacity (stateAfter D (Some st) [(t1, False)]))
    \<and> (\<forall>st frames t. consistent st \<and> fadeState st = FadingIn
           \<and> heldFrom (fadeStartTime st) True frames \<and> t \<noteq> 0 \<and> fadeStartTime st + D \<le> t
         \<longrightarrow> currentOpacity (stateAfter D (Some st) (frames @ [(t, True)])) = 1
             \<and> currentFade (stateAfter D (Some st) (frames @ [(t, True)])) = Steady)
    \<and> (\<forall>st frames t. consistent st \<and> fadeState st = FadingOut
           \<and> heldFrom (fadeStartTime st) False frames \<and> t \<noteq> 0 \<and> fadeStartTime st + D \<le> t
         \<longrightarrow> currentOpacity (stateAfter D (Some st) (frames @ [(t, False)])) = 0
             \<and> currentFade (stateAfter D (Some st) (frames @ [(t, False)])) = Gone)"
proof (intro conjI allI impI)
  fix tracked :: "LabelState option" and frames
  assume "trackedConsistent tracked"
  then show "list_all inRange (renderFrames D tracked frames)"
    by (rule renderFrames_inRange)
next
  fix st t1 t2
  assume "consistent st \<and> fadeState st = FadingIn \<and> fadeStartTime st \<le> t1
           \<and> t1 < t2 \<and> t1 \<noteq> 0 \<and> t2 \<noteq> 0
           \<and> currentFade (stateAfter D (Some st) [(t1, True)]) = FadingIn"
  then show "currentOpacity (stateAfter D (Some st) [(t1, True)])
               < currentOpacity (stateAfter D (Some st) [(t1, True), (t2, True)])"
    using fadingIn_increases[OF assms, of st t1 t2] by blast
next
  fix st t1 t2
  assume "consistent st \<and> fadeState st = FadingOut \<and> fadeStartTime st \<le> t1
           \<and> t1 < t2 \<and> t1 \<noteq> 0 \<and> t2 \<noteq> 0
           \<and> currentFade (stateAfter D (Some st) [(t1, False)]) = FadingOut"
  then show "currentOpacity (stateAfter D (Some st) [(t1, False), (t2, False)])
               < currentOpacity (stateAfter D (Some st) [(t1, False)])"
    using fadingOut_decreases[OF assms, of st t1 t2] by blast
next
  fix st frames t
  assume a: "consistent st \<and> fadeState st = FadingIn
           \<and> heldFrom (fadeStartTime st) True frames \<and> t \<noteq> 0 \<and> fadeStartTime st + D \<le> t"
  then obtain st1 where st1: "stateAfter D (Some st) frames = Some st1" "consistent st1"
      "fadeState st1 = FadingIn \<or> fadeState st1 = Steady"
      "fadeStartTime st1 = fadeStartTime st"
    using held_in_run[of st "fadeStartTime st" frames D] by auto
  from held_in_reaches_one[OF assms st1(2,3), of t] a st1(4)
  obtain st2 where "fst (placeText D t True (Some st1)) = Some st2"
    "opacity st2 = 1" "fadeState st2 = Steady" by auto
  with st1(1) have r: "stateAfter D (Some st) (frames @ [(t, True)]) = Some st2"
    by (simp add: stateAfter_append)
  with \<open>opacity st2 = 1\<close> \<open>fadeState st2 = Steady\<close>
  show "currentOpacity (stateAfter D (Some st) (frames @ [(t, True)])) = 1"
    and "currentFade (stateAfter D (Some st) (frames @ [(t, True)])) = Steady"
    by (simp_all add: currentOpacity_def currentFade_def)
next
  fix st frames t
  assume a: "consistent st \<and> fadeState st = FadingOut
           \<and> heldFrom (fadeStartTime st) False frames \<and> t \<noteq> 0 \<and> fadeStartTime st + D \<le> t"
  then obtain st1 where st1: "stateAfter D (Some st) frames = Some st1" "consistent st1"
      "fadeState st1 = FadingOut \<or> fadeState st1 = Gone"
      "fadeStartTime st1 = fadeStartTime st"
    using held_out_run[of st "fadeStartTime st" frames D] by auto
  from held_out_reaches_zero[OF assms st1(2,3), of t] a st1(4)
  obtain st2 where "fst (placeText D t False (Some st1)) = Some st2"
    "opacity st2 = 0" "fadeState st2 = Gone" by auto
  with st1(1) have r: "stateAfter D (Some st) (frames @ [(t, False)]) = Some st2"
    by (simp add: stateAfter_append)
  with \<open>opacity st2 = 0\<close> \<open>fadeState st2 = Gone\<close>
  show "currentOpacity (stateAfter D (Some st) (frames @ [(t, False)])) = 0"
    and "currentFade (stateAfter D (Some st) (frames @ [(t, False)])) = Gone"
    by (simp_all add: currentOpacity_def currentFade_def)
qed

theorem fade_bounded_monotone_witness:
  "currentOpacity (stateAfter 800 (Some (startFadeIn 1 0)) [(401, True), (801, True)]) = 1
   \<and> currentOpacity (stateAfter 800 (Some (startFadeIn 1 0)) [(201, True)])
       < currentOpacity (stateAfter 800 (Some (startFadeIn 1 0)) [(201, True), (401, True)])
   \<and> list_all inRange (renderFrames 800 None [(1, True), (401, True), (501, False)])"
proof -
  have D: "(0 :: real) < 800" by simp
  note T = fade_bounded_monotone[OF D]
  have h: "heldFrom (fadeStartTime (startFadeIn 1 0)) True [(401, True)]"
    by (simp add: heldFrom_def firstSighting)
  have a: "currentOpacity (stateAfter 800 (Some (startFadeIn 1 0)) ([(401, True)] @ [(801, True)])) = 1"
    using T[THEN conjunct2, THEN conjunct2, THEN conjunct2, THEN conjunct1, rule_format,
        of "startFadeIn 1 0" "[(401, True)]" 801] h
    by (simp add: firstSighting)
  have b: "currentOpacity (stateAfter 800 (Some (startFadeIn 1 0)) [(201, True)])
       < currentOpacity (stateAfter 800 (Some (startFadeIn 1 0)) [(201, True), (401, True)])"
    using T[THEN conjunct2, THEN conjunct1, rule_format, of "startFadeIn 1 0" 201 401]
      firstSighting_quarter
    by (simp add: firstSighting)
  have c: "list_all inRange (renderFrames 800 None [(1, True), (401, True), (501, False)])"
  proof -
    have "trackedConsistent None" by (simp add: trackedConsistent_def)
    then show ?thesis by (rule T[THEN conjunct1, rule_format])
  qed
  have "[(401, True)] @ [(801, True)] = [(401 :: real, True), (801, True)]" by simp
  with a have a': "currentOpacity (stateAfter 800 (Some (startFadeIn 1 0))
      [(401, True), (801, True)]) = 1" by (simp only:)
  from a' b c show ?thesis by blast
qed

end
